theory Spec2Isabelle
  imports Main "HOL-Library.List_Lexorder"
begin

section \<open>The game page of Spark: data model\<close>

text \<open>
  The component \<^verbatim>\<open>GamePage\<close> (src/apps/web/src/pages/GamePage.tsx) keeps its whole
  state in React \<^verbatim>\<open>useState\<close> cells and changes it in event handlers: clicks, the
  one-second interval of the turn clock, the callbacks of the game socket, and
  \<^verbatim>\<open>setTimeout\<close> continuations. Each handler runs to completion. The model below has
  one record field per state cell, one function per handler, and one constructor of
  \<open>timer\<close> per \<^verbatim>\<open>setTimeout\<close> continuation, holding the values the continuation
  closes over.

  JavaScript values are modelled as follows: a string is a \<open>string\<close>, \<^verbatim>\<open>null\<close> and
  \<^verbatim>\<open>undefined\<close> are \<open>None\<close>, a closed TypeScript union of a prop is a datatype,
  a number that counts is a \<open>nat\<close>, the clock and the reward amounts are \<open>int\<close>.
\<close>

datatype phase = Playing | Finished

datatype outcome = Player | Opponent | Draw

datatype play_mode = Free | Stake

datatype opponent_type = OppPlayer | OppAI

datatype role_t = P1 | P2

datatype rps = Rock | Paper | Scissors

datatype rps_result = RWin | RLose | RDraw

type_synonym cell = "string option"

text \<open>
  Props and hook values of the component. \<open>calculateXPChange\<close> is imported from
  \<^verbatim>\<open>../types\<close>, which is not part of the sources: it is a parameter here.
  \<open>clientSide\<close> is the value of \<open>side\<close> that the socket callbacks close over: the game
  client is created in an effect whose dependencies are
  \<^verbatim>\<open>[matchId, opponentType, address, game.name]\<close>, so its callbacks keep the \<open>side\<close>
  of the render in which the client was created.
\<close>

record env =
  gameName :: string
  stakeAmount :: int
  playMode :: play_mode
  matchId :: "string option"
  opponentWallet :: "string option"
  role :: "role_t option"
  opponentType :: opponent_type
  address :: "string option"
  xp :: int
  calculateXPChange :: "bool \<Rightarrow> int \<Rightarrow> int \<Rightarrow> int"
  clientSide :: "string option"

record game_end_data =
  isDraw :: bool
  winnerSide :: "string option"
  winnerAddr :: "string option"

text \<open>
  A timestamp of a socket message enters only through
  \<^verbatim>\<open>Math.floor((Date.now() - t) / 1000)\<close>; the message records carry that number of
  elapsed seconds, \<open>None\<close> when the message has no timestamp.
\<close>

record start_data =
  startSide :: "string option"
  startCurrent :: "string option"
  startElapsed :: "int option"

record state_data =
  board :: "cell list"
  current :: "string option"
  elapsed :: "int option"

record rps_reveal =
  revealRound :: nat
  aChoice :: rps
  bChoice :: rps
  revealWinner :: "string option"

datatype message = SendMove nat | SendChoice rps | SendForfeit

text \<open>
  The continuations passed to \<^verbatim>\<open>setTimeout\<close>, each with the values it closes over, in
  the order of the source.
\<close>

datatype timer =
    TTTPlayerDecay "cell list" nat nat "nat list" string string "nat list"
  | TTTAIThink "cell list" "nat list"
  | TTTAIDecay "cell list" nat nat "nat list"
  | C4PlayerDrop "cell list" nat nat string string
  | C4Reset
  | C4AIThink "cell list"
  | C4AIDrop "cell list" nat nat
  | RPSAIThink rps nat nat
  | RPSAIResult rps rps nat nat
  | RPSAIAdvance nat nat
  | RPSRevealResult rps_result
  | RPSRevealAdvance

text \<open>
  The state cells. \<open>gameClient\<close> tells whether the client object is non-null.
  \<open>timers\<close> holds the pending continuations with their delay in milliseconds,
  \<open>sent\<close> the messages handed to the socket, and \<open>gameEndCalls\<close> the calls of
  \<^verbatim>\<open>handleGameEnd\<close> in order; the last two record what the component did and are
  never read by it.
\<close>

record state =
  turnTime :: int
  gameState :: phase
  winner :: "outcome option"
  earnedARK :: int
  earnedXP :: int
  opponentXP :: int
  gameClient :: bool
  started :: bool
  pendingWinnerSide :: "string option"
  side :: "string option"
  tttBoard :: "cell list"
  tttCurrentPlayer :: string
  playerMoves :: "nat list"
  opponentMoves :: "nat list"
  fadingCell :: "nat option"
  c4Board :: "cell list"
  c4CurrentPlayer :: string
  c4DroppingToken :: "(nat \<times> nat) option"
  c4RoundCount :: nat
  rpsPlayerChoice :: "rps option"
  rpsOpponentChoice :: "rps option"
  rpsPlayerScore :: nat
  rpsOpponentScore :: nat
  rpsCurrentRound :: nat
  rpsRoundResult :: "rps_result option"
  rpsRevealing :: bool
  rpsWaitingForOpponent :: bool
  pendingRpsReveal :: "rps_reveal option"
  timers :: "(nat \<times> timer) list"
  sent :: "message list"
  gameEndCalls :: "outcome list"

section \<open>Helpers for JavaScript values\<close>

text \<open>A string or null in a condition: null, undefined and the empty string are falsy.\<close>

definition truthy :: "string option \<Rightarrow> bool" where
  "truthy v = (case v of None \<Rightarrow> False | Some t \<Rightarrow> t \<noteq> [])"

text \<open>Reading an array: beyond its end the read gives \<^verbatim>\<open>undefined\<close>.\<close>

definition cellAt :: "cell list \<Rightarrow> nat \<Rightarrow> cell" where
  "cellAt b i = (if i < length b then b ! i else None)"

section \<open>Ending the match\<close>

text \<open>
  \<^verbatim>\<open>handleGameEnd\<close>, up to its first \<^verbatim>\<open>await\<close>. What follows in the source (the
  submission of the result, the refresh of the balance, closing the socket) and the call
  \<^verbatim>\<open>addXP(xpChange)\<close> address other modules and write no state cell.
\<close>

definition handleGameEnd :: "env \<Rightarrow> outcome \<Rightarrow> state \<Rightarrow> state" where
  "handleGameEnd e gameWinner s =
     (let s1 = s\<lparr>winner := Some gameWinner, gameState := Finished,
                 gameEndCalls := gameEndCalls s @ [gameWinner]\<rparr>
      in if playMode e = Stake
         then (let won = (gameWinner = Player);
                   xpChange = calculateXPChange e won (xp e) (opponentXP s);
                   arkReward = (if won then stakeAmount e * 2 else - stakeAmount e)
               in s1\<lparr>earnedXP := xpChange, earnedARK := arkReward\<rparr>)
         else s1\<lparr>earnedXP := 0, earnedARK := 0\<rparr>)"

section \<open>Symbols and colours of the two participants\<close>

text \<open>
  \<^verbatim>\<open>side ? (side === "a" ? "X" : "O") : (role === "p2" ? "O" : "X")\<close>, and the same
  for the Connect-Four colours. In a handler created by a render the side is the one of
  the state; in a socket callback it is \<open>clientSide\<close>.
\<close>

definition playerSymbolOf :: "string option \<Rightarrow> role_t option \<Rightarrow> string" where
  "playerSymbolOf sd rl =
     (if truthy sd then (if sd = Some ''a'' then ''X'' else ''O'')
      else (if rl = Some P2 then ''O'' else ''X''))"

definition opponentSymbolOf :: "string option \<Rightarrow> role_t option \<Rightarrow> string" where
  "opponentSymbolOf sd rl = (if playerSymbolOf sd rl = ''X'' then ''O'' else ''X'')"

definition playerColorOf :: "string option \<Rightarrow> role_t option \<Rightarrow> string" where
  "playerColorOf sd rl =
     (if truthy sd then (if sd = Some ''a'' then ''red'' else ''yellow'')
      else (if rl = Some P2 then ''yellow'' else ''red''))"

definition opponentColorOf :: "string option \<Rightarrow> role_t option \<Rightarrow> string" where
  "opponentColorOf sd rl = (if playerColorOf sd rl = ''red'' then ''yellow'' else ''red'')"

definition resetTurnTimer :: "state \<Rightarrow> state" where
  "resetTurnTimer s = s\<lparr>turnTime := 30\<rparr>"

definition schedule :: "nat \<Rightarrow> timer \<Rightarrow> state \<Rightarrow> state" where
  "schedule ms t s = s\<lparr>timers := timers s @ [(ms, t)]\<rparr>"

text \<open>
  \<^verbatim>\<open>xs[Math.floor(Math.random() * xs.length)]\<close> on a non-empty array: the draw is an
  index below the length. The argument \<open>r\<close> stands for the random number; as \<open>r\<close>
  varies, \<open>r mod length xs\<close> takes every index the source can take.
\<close>

definition pick :: "nat \<Rightarrow> 'a list \<Rightarrow> 'a" where
  "pick r xs = xs ! (r mod length xs)"

section \<open>Tic-Tac-Toe\<close>

definition tttLines :: "(nat \<times> nat \<times> nat) list" where
  "tttLines = [(0, 1, 2), (3, 4, 5), (6, 7, 8),
               (0, 3, 6), (1, 4, 7), (2, 5, 8),
               (0, 4, 8), (2, 4, 6)]"

fun firstLine :: "cell list \<Rightarrow> (nat \<times> nat \<times> nat) list \<Rightarrow> cell" where
  "firstLine squares [] = None"
| "firstLine squares ((a, b, c) # ls) =
     (if truthy (cellAt squares a) \<and> cellAt squares a = cellAt squares b
         \<and> cellAt squares a = cellAt squares c
      then cellAt squares a
      else firstLine squares ls)"

definition checkTTTWinner :: "cell list \<Rightarrow> cell" where
  "checkTTTWinner squares = firstLine squares tttLines"

text \<open>
  \<^verbatim>\<open>handleTTTCellClick\<close>. In a multiplayer match the move is sent and only the turn is
  flipped. Otherwise the mark is placed at once while the player holds fewer than three
  marks; with three the oldest is set fading and the rest of the move is the
  continuation \<open>TTTPlayerDecay\<close>, 400 ms later. Array writes are at indices the
  page offers (cells of the board) or that a history holds.
\<close>

definition handleTTTCellClick :: "env \<Rightarrow> nat \<Rightarrow> state \<Rightarrow> state" where
  "handleTTTCellClick e index s =
     (let playerSymbol = playerSymbolOf (side s) (role e);
          opponentSymbol = opponentSymbolOf (side s) (role e)
      in if \<not> started s \<or> truthy (cellAt (tttBoard s) index)
            \<or> tttCurrentPlayer s \<noteq> playerSymbol \<or> fadingCell s \<noteq> None
         then s
         else if opponentType e = OppPlayer
         then (if gameClient s
               then s\<lparr>sent := sent s @ [SendMove index], tttCurrentPlayer := opponentSymbol\<rparr>
               else s)
         else if 3 \<le> length (playerMoves s)
         then (let oldestMove = hd (playerMoves s)
               in schedule 400
                    (TTTPlayerDecay (tttBoard s) oldestMove index (playerMoves s)
                       playerSymbol opponentSymbol (opponentMoves s))
                    (s\<lparr>fadingCell := Some oldestMove\<rparr>))
         else (let newBoard = (tttBoard s)[index := Some playerSymbol];
                   s1 = s\<lparr>tttBoard := newBoard, playerMoves := playerMoves s @ [index]\<rparr>
               in if checkTTTWinner newBoard = Some playerSymbol
                  then handleGameEnd e Player s1
                  else (let s2 = resetTurnTimer (s1\<lparr>tttCurrentPlayer := opponentSymbol\<rparr>)
                        in if opponentType e = OppAI
                           then schedule 700 (TTTAIThink newBoard (opponentMoves s)) s2
                           else s2)))"

text \<open>The continuation of a player's move that evicts: remove the oldest, place the new.\<close>

definition fireTTTPlayerDecay ::
  "env \<Rightarrow> cell list \<Rightarrow> nat \<Rightarrow> nat \<Rightarrow> nat list \<Rightarrow> string \<Rightarrow> string \<Rightarrow> nat list
     \<Rightarrow> state \<Rightarrow> state" where
  "fireTTTPlayerDecay e newBoard oldestMove index newPlayerMoves playerSymbol opponentSymbol
       oppMoves s =
     (let updatedBoard = (newBoard[oldestMove := None])[index := Some playerSymbol];
          s1 = s\<lparr>tttBoard := updatedBoard, fadingCell := None,
                 playerMoves := tl newPlayerMoves @ [index]\<rparr>
      in if checkTTTWinner updatedBoard = Some playerSymbol
         then handleGameEnd e Player s1
         else (let s2 = resetTurnTimer (s1\<lparr>tttCurrentPlayer := opponentSymbol\<rparr>)
               in if opponentType e = OppAI
                  then schedule 700 (TTTAIThink updatedBoard oppMoves) s2
                  else s2))"

text \<open>\<^verbatim>\<open>makeAIMove\<close>, after its 700 ms: a random empty cell, mark \<^verbatim>\<open>"O"\<close>.\<close>

definition emptySpots :: "cell list \<Rightarrow> nat list" where
  "emptySpots currentBoard = [i \<leftarrow> [0 ..< length currentBoard]. currentBoard ! i = None]"

definition fireTTTAIThink :: "env \<Rightarrow> nat \<Rightarrow> cell list \<Rightarrow> nat list \<Rightarrow> state \<Rightarrow> state" where
  "fireTTTAIThink e r currentBoard currentOpponentMoves s =
     (if emptySpots currentBoard = [] then s
      else (let aiMove = pick r (emptySpots currentBoard)
            in if 3 \<le> length currentOpponentMoves
               then (let oldestMove = hd currentOpponentMoves
                     in schedule 400
                          (TTTAIDecay currentBoard oldestMove aiMove currentOpponentMoves)
                          (s\<lparr>fadingCell := Some oldestMove\<rparr>))
               else (let updatedBoard = currentBoard[aiMove := Some ''O''];
                         s1 = s\<lparr>tttBoard := updatedBoard,
                                opponentMoves := currentOpponentMoves @ [aiMove]\<rparr>
                     in if checkTTTWinner updatedBoard = Some ''O''
                        then handleGameEnd e Opponent s1
                        else resetTurnTimer (s1\<lparr>tttCurrentPlayer := ''X''\<rparr>))))"

definition fireTTTAIDecay ::
  "env \<Rightarrow> cell list \<Rightarrow> nat \<Rightarrow> nat \<Rightarrow> nat list \<Rightarrow> state \<Rightarrow> state" where
  "fireTTTAIDecay e currentBoard oldestMove aiMove newOpponentMoves s =
     (let updatedBoard = (currentBoard[oldestMove := None])[aiMove := Some ''O''];
          s1 = s\<lparr>tttBoard := updatedBoard, fadingCell := None,
                 opponentMoves := tl newOpponentMoves @ [aiMove]\<rparr>
      in if checkTTTWinner updatedBoard = Some ''O''
         then handleGameEnd e Opponent s1
         else resetTurnTimer (s1\<lparr>tttCurrentPlayer := ''X''\<rparr>))"

section \<open>Connect Four\<close>

text \<open>
  The four scans of \<^verbatim>\<open>checkC4Winner\<close> in their order: horizontal, vertical, down-right,
  down-left; each window is the four indices compared.
\<close>

definition c4Windows :: "(nat \<times> nat \<times> nat \<times> nat) list" where
  "c4Windows =
     [(row * 7 + col, row * 7 + col + 1, row * 7 + col + 2, row * 7 + col + 3).
        row \<leftarrow> [0 ..< 6], col \<leftarrow> [0 ..< 4]] @
     [(row * 7 + col, row * 7 + col + 7, row * 7 + col + 14, row * 7 + col + 21).
        col \<leftarrow> [0 ..< 7], row \<leftarrow> [0 ..< 3]] @
     [(row * 7 + col, row * 7 + col + 8, row * 7 + col + 16, row * 7 + col + 24).
        row \<leftarrow> [0 ..< 3], col \<leftarrow> [0 ..< 4]] @
     [(row * 7 + col, row * 7 + col + 6, row * 7 + col + 12, row * 7 + col + 18).
        row \<leftarrow> [0 ..< 3], col \<leftarrow> [3 ..< 7]]"

fun firstWindow :: "cell list \<Rightarrow> (nat \<times> nat \<times> nat \<times> nat) list \<Rightarrow> cell" where
  "firstWindow b [] = None"
| "firstWindow b ((i, j, k, l) # ws) =
     (if truthy (cellAt b i) \<and> cellAt b i = cellAt b j \<and> cellAt b i = cellAt b k
         \<and> cellAt b i = cellAt b l
      then cellAt b i
      else firstWindow b ws)"

definition checkC4Winner :: "cell list \<Rightarrow> cell" where
  "checkC4Winner b = firstWindow b c4Windows"

text \<open>The lowest empty row of a column: rows 5 down to 0, the first whose cell is falsy.\<close>

definition findRow :: "cell list \<Rightarrow> nat \<Rightarrow> nat option" where
  "findRow b col = find (\<lambda>row. \<not> truthy (cellAt b (row * 7 + col))) [5, 4, 3, 2, 1, 0]"

definition boardFull :: "cell list \<Rightarrow> bool" where
  "boardFull b = list_all (\<lambda>c. c \<noteq> None) b"

definition handleC4ColumnClick :: "env \<Rightarrow> nat \<Rightarrow> state \<Rightarrow> state" where
  "handleC4ColumnClick e col s =
     (let playerColor = playerColorOf (side s) (role e);
          opponentColor = opponentColorOf (side s) (role e)
      in if \<not> started s \<or> c4CurrentPlayer s \<noteq> playerColor \<or> c4DroppingToken s \<noteq> None
         then s
         else (case findRow (c4Board s) col of
                 None \<Rightarrow> s
               | Some targetRow \<Rightarrow>
                   if opponentType e = OppPlayer
                   then (if gameClient s
                         then s\<lparr>sent := sent s @ [SendMove col],
                                c4CurrentPlayer := opponentColor\<rparr>
                         else s)
                   else schedule 500
                          (C4PlayerDrop (c4Board s) targetRow col playerColor opponentColor)
                          (s\<lparr>c4DroppingToken := Some (col, targetRow)\<rparr>)))"

text \<open>The round restarts 2000 ms after a board filled without a line.\<close>

definition fireC4Reset :: "state \<Rightarrow> state" where
  "fireC4Reset s =
     resetTurnTimer (s\<lparr>c4Board := replicate 42 None, c4RoundCount := c4RoundCount s + 1,
                        c4CurrentPlayer := ''red''\<rparr>)"

definition fireC4PlayerDrop ::
  "env \<Rightarrow> cell list \<Rightarrow> nat \<Rightarrow> nat \<Rightarrow> string \<Rightarrow> string \<Rightarrow> state \<Rightarrow> state" where
  "fireC4PlayerDrop e oldBoard targetRow col playerColor opponentColor s =
     (let newBoard = oldBoard[targetRow * 7 + col := Some playerColor];
          s1 = s\<lparr>c4Board := newBoard, c4DroppingToken := None\<rparr>
      in if checkC4Winner newBoard = Some playerColor
         then handleGameEnd e Player s1
         else if boardFull newBoard
         then schedule 2000 C4Reset s1
         else (let s2 = resetTurnTimer (s1\<lparr>c4CurrentPlayer := opponentColor\<rparr>)
               in if opponentType e = OppAI
                  then schedule 1000 (C4AIThink newBoard) s2
                  else s2))"

text \<open>\<^verbatim>\<open>makeC4AIMove\<close>, after its 1000 ms: a random column whose top cell is free.\<close>

definition availableCols :: "cell list \<Rightarrow> nat list" where
  "availableCols currentBoard = [col \<leftarrow> [0 ..< 7]. \<not> truthy (cellAt currentBoard col)]"

definition fireC4AIThink :: "nat \<Rightarrow> cell list \<Rightarrow> state \<Rightarrow> state" where
  "fireC4AIThink r currentBoard s =
     (if availableCols currentBoard = [] then s
      else (let aiCol = pick r (availableCols currentBoard)
            in case findRow currentBoard aiCol of
                 None \<Rightarrow> s
               | Some targetRow \<Rightarrow>
                   schedule 500 (C4AIDrop currentBoard targetRow aiCol)
                     (s\<lparr>c4DroppingToken := Some (aiCol, targetRow)\<rparr>)))"

definition fireC4AIDrop :: "env \<Rightarrow> cell list \<Rightarrow> nat \<Rightarrow> nat \<Rightarrow> state \<Rightarrow> state" where
  "fireC4AIDrop e currentBoard targetRow aiCol s =
     (let newBoard = currentBoard[targetRow * 7 + aiCol := Some ''yellow''];
          s1 = s\<lparr>c4Board := newBoard, c4DroppingToken := None\<rparr>
      in if checkC4Winner newBoard = Some ''yellow''
         then handleGameEnd e Opponent s1
         else if boardFull newBoard
         then schedule 2000 C4Reset s1
         else resetTurnTimer (s1\<lparr>c4CurrentPlayer := ''red''\<rparr>))"

section \<open>Rock Paper Scissors\<close>

definition determineRPSWinner :: "rps option \<Rightarrow> rps option \<Rightarrow> rps_result" where
  "determineRPSWinner player opponent =
     (if player = None \<or> opponent = None then RDraw
      else if player = opponent then RDraw
      else if (player = Some Rock \<and> opponent = Some Scissors)
              \<or> (player = Some Scissors \<and> opponent = Some Paper)
              \<or> (player = Some Paper \<and> opponent = Some Rock)
      then RWin
      else RLose)"

definition handleRPSChoice :: "env \<Rightarrow> rps option \<Rightarrow> state \<Rightarrow> state" where
  "handleRPSChoice e choice s =
     (case choice of
        None \<Rightarrow> s
      | Some c \<Rightarrow>
          if rpsWaitingForOpponent s \<or> rpsRevealing s then s
          else (let s1 = s\<lparr>rpsPlayerChoice := Some c, rpsWaitingForOpponent := True\<rparr>
                in if opponentType e = OppPlayer
                   then (if gameClient s then s1\<lparr>sent := sent s @ [SendChoice c]\<rparr> else s1)
                   else schedule 1500 (RPSAIThink c (rpsPlayerScore s) (rpsOpponentScore s)) s1))"

definition fireRPSAIThink :: "nat \<Rightarrow> rps \<Rightarrow> nat \<Rightarrow> nat \<Rightarrow> state \<Rightarrow> state" where
  "fireRPSAIThink r choice pScore oScore s =
     (let opponentChoice = pick r [Rock, Paper, Scissors]
      in schedule 1000 (RPSAIResult choice opponentChoice pScore oScore)
           (s\<lparr>rpsOpponentChoice := Some opponentChoice, rpsRevealing := True\<rparr>))"

definition fireRPSAIResult :: "rps \<Rightarrow> rps \<Rightarrow> nat \<Rightarrow> nat \<Rightarrow> state \<Rightarrow> state" where
  "fireRPSAIResult choice opponentChoice pScore oScore s =
     (let result = determineRPSWinner (Some choice) (Some opponentChoice);
          s1 = s\<lparr>rpsRoundResult := Some result\<rparr>;
          newPlayerScore = (if result = RWin then pScore + 1 else pScore);
          newOpponentScore = (if result = RWin then oScore
                              else if result = RLose then oScore + 1 else oScore);
          s2 = (if result = RWin then s1\<lparr>rpsPlayerScore := newPlayerScore\<rparr>
                else if result = RLose then s1\<lparr>rpsOpponentScore := newOpponentScore\<rparr>
                else s1)
      in schedule 2500 (RPSAIAdvance newPlayerScore newOpponentScore) s2)"

definition nextRound :: "state \<Rightarrow> state" where
  "nextRound s =
     resetTurnTimer (s\<lparr>rpsCurrentRound := rpsCurrentRound s + 1, rpsPlayerChoice := None,
                        rpsOpponentChoice := None, rpsRoundResult := None,
                        rpsRevealing := False, rpsWaitingForOpponent := False\<rparr>)"

definition fireRPSAIAdvance :: "env \<Rightarrow> nat \<Rightarrow> nat \<Rightarrow> state \<Rightarrow> state" where
  "fireRPSAIAdvance e newPlayerScore newOpponentScore s =
     (if 5 \<le> newPlayerScore then handleGameEnd e Player s
      else if 5 \<le> newOpponentScore then handleGameEnd e Opponent s
      else nextRound s)"

text \<open>
  A reveal of the server, once the side \<open>mySide\<close> is known: shared by the callback
  \<^verbatim>\<open>onRpsReveal\<close> and by the effect that replays a buffered reveal.
\<close>

definition showReveal :: "string option \<Rightarrow> rps_reveal \<Rightarrow> state \<Rightarrow> state" where
  "showReveal mySide d s =
     (let myChoice = (if mySide = Some ''a'' then aChoice d else bChoice d);
          oppChoice = (if mySide = Some ''a'' then bChoice d else aChoice d);
          result = (if revealWinner d = None then RDraw
                    else if revealWinner d = mySide then RWin else RLose)
      in schedule 800 (RPSRevealResult result)
           (s\<lparr>rpsPlayerChoice := Some myChoice, rpsOpponentChoice := Some oppChoice,
              rpsRevealing := True, rpsWaitingForOpponent := False\<rparr>))"

definition fireRPSRevealResult :: "rps_result \<Rightarrow> state \<Rightarrow> state" where
  "fireRPSRevealResult result s =
     (let s1 = s\<lparr>rpsRoundResult := Some result\<rparr>;
          s2 = (if result = RWin then s1\<lparr>rpsPlayerScore := rpsPlayerScore s1 + 1\<rparr>
                else if result = RLose then s1\<lparr>rpsOpponentScore := rpsOpponentScore s1 + 1\<rparr>
                else s1)
      in schedule 1500 RPSRevealAdvance s2)"

section \<open>Callbacks of the game socket\<close>

text \<open>
  \<^verbatim>\<open>onOpponentMove\<close> only resynchronises the clock. The functions
  \<^verbatim>\<open>handleOpponentTTTMove\<close> and \<^verbatim>\<open>handleOpponentC4Move\<close> of the source are called
  from nowhere and have no counterpart here.
\<close>

definition syncTurnTime :: "int \<Rightarrow> state \<Rightarrow> state" where
  "syncTurnTime el s = s\<lparr>turnTime := max 0 (30 - el)\<rparr>"

definition onOpponentMove :: "env \<Rightarrow> int option \<Rightarrow> state \<Rightarrow> state" where
  "onOpponentMove e moveElapsed s =
     (if gameName e = ''Tic-Tac-Toe'' \<or> gameName e = ''Connect Four''
      then (case moveElapsed of None \<Rightarrow> s | Some el \<Rightarrow> syncTurnTime el s)
      else s)"

text \<open>
  \<^verbatim>\<open>onGameEnd\<close>: a draw, else a winning side (resolved against the side the callback
  knows, or buffered when it knows none), else the winner's address.
\<close>

definition onGameEnd :: "env \<Rightarrow> game_end_data \<Rightarrow> state \<Rightarrow> state" where
  "onGameEnd e d s =
     (if isDraw d then handleGameEnd e Draw s
      else if truthy (winnerSide d)
      then (if truthy (clientSide e)
            then handleGameEnd e (if winnerSide d = clientSide e then Player else Opponent) s
            else s\<lparr>pendingWinnerSide := winnerSide d\<rparr>)
      else if winnerAddr d = address e then handleGameEnd e Player s
      else handleGameEnd e Opponent s)"

definition onStart :: "start_data \<Rightarrow> state \<Rightarrow> state" where
  "onStart d s =
     (let s1 = (if startSide d = Some ''a'' \<or> startSide d = Some ''b''
                then s\<lparr>side := startSide d\<rparr> else s);
          s2 = s1\<lparr>tttCurrentPlayer := (if startCurrent d = Some ''a'' then ''X'' else ''O''),
                  c4CurrentPlayer := (if startCurrent d = Some ''a'' then ''red'' else ''yellow''),
                  started := True\<rparr>
      in case startElapsed d of
           Some el \<Rightarrow> syncTurnTime el s2
         | None \<Rightarrow> resetTurnTimer s2)"

text \<open>
  \<^verbatim>\<open>Array.prototype.sort\<close> without a comparator orders by the decimal strings of the
  numbers; it is stable.
\<close>

fun digits :: "nat \<Rightarrow> nat list" where
  "digits n = (if n < 10 then [n] else digits (n div 10) @ [n mod 10])"

declare digits.simps [simp del]

definition jsSort :: "nat list \<Rightarrow> nat list" where
  "jsSort xs = sort_key digits xs"

definition cellsOf :: "string \<Rightarrow> cell list \<Rightarrow> nat list" where
  "cellsOf mark srvBoard = [i \<leftarrow> [0 ..< length srvBoard]. srvBoard ! i = Some mark]"

definition onState :: "env \<Rightarrow> state_data \<Rightarrow> state \<Rightarrow> state" where
  "onState e d s =
     (let playerSymbol = playerSymbolOf (clientSide e) (role e);
          opponentSymbol = opponentSymbolOf (clientSide e) (role e);
          s1 = (if gameName e = ''Tic-Tac-Toe''
                then s\<lparr>tttBoard := board d,
                       playerMoves := jsSort (cellsOf playerSymbol (board d)),
                       opponentMoves := jsSort (cellsOf opponentSymbol (board d)),
                       fadingCell := None,
                       tttCurrentPlayer := (if current d = Some ''a'' then ''X'' else ''O'')\<rparr>
                else if gameName e = ''Connect Four''
                then s\<lparr>c4Board := board d, c4DroppingToken := None,
                       c4CurrentPlayer := (if current d = Some ''a'' then ''red'' else ''yellow'')\<rparr>
                else s);
          s2 = (case elapsed d of None \<Rightarrow> s1 | Some el \<Rightarrow> syncTurnTime el s1)
      in s2\<lparr>started := True\<rparr>)"

definition onRpsReveal :: "env \<Rightarrow> rps_reveal \<Rightarrow> state \<Rightarrow> state" where
  "onRpsReveal e d s =
     (if gameName e \<noteq> ''Rock Paper Scissors'' then s
      else if \<not> truthy (clientSide e) then s\<lparr>pendingRpsReveal := Some d\<rparr>
      else showReveal (clientSide e) d s)"

definition handleForfeit :: "env \<Rightarrow> state \<Rightarrow> state" where
  "handleForfeit e s =
     handleGameEnd e Opponent (if gameClient s then s\<lparr>sent := sent s @ [SendForfeit]\<rparr> else s)"

section \<open>Effects that replay buffered events\<close>

text \<open>
  The two effects that depend on \<open>side\<close>. Both read the values of the render \<open>r\<close> that
  runs them; what they set is applied to the state in turn. Each clears what it has
  replayed, so a further run finds nothing to do.
\<close>

definition resolvePendingWinner :: "env \<Rightarrow> state \<Rightarrow> state \<Rightarrow> state" where
  "resolvePendingWinner e r s =
     (if gameState r = Playing \<and> truthy (pendingWinnerSide r) \<and> truthy (side r)
      then (handleGameEnd e (if pendingWinnerSide r = side r then Player else Opponent) s)
             \<lparr>pendingWinnerSide := None\<rparr>
      else s)"

definition replayPendingReveal :: "env \<Rightarrow> state \<Rightarrow> state \<Rightarrow> state" where
  "replayPendingReveal e r s =
     (if gameName e \<noteq> ''Rock Paper Scissors'' then s
      else if \<not> truthy (side r) \<or> gameState r \<noteq> Playing then s
      else (case pendingRpsReveal r of
              None \<Rightarrow> s
            | Some d \<Rightarrow> (showReveal (side r) d s)\<lparr>pendingRpsReveal := None\<rparr>))"

definition commitEffects :: "env \<Rightarrow> state \<Rightarrow> state" where
  "commitEffects e s = replayPendingReveal e s (resolvePendingWinner e s s)"

section \<open>The turn clock\<close>

text \<open>
  The interval exists only while the guard of its effect is false; the effect depends on
  every value of the guard, so a render in which a gate holds has no interval.
\<close>

definition timerSuspended :: "state \<Rightarrow> bool" where
  "timerSuspended s =
     (gameState s = Finished \<or> fadingCell s \<noteq> None \<or> c4DroppingToken s \<noteq> None
      \<or> rpsWaitingForOpponent s \<or> rpsRevealing s)"

definition onTimeout :: "env \<Rightarrow> state \<Rightarrow> state" where
  "onTimeout e s =
     (if gameName e = ''Tic-Tac-Toe''
      then (if tttCurrentPlayer s = ''X'' then handleGameEnd e Opponent s
            else handleGameEnd e Player s)
      else if gameName e = ''Connect Four''
      then (if c4CurrentPlayer s = ''red'' then handleGameEnd e Opponent s
            else handleGameEnd e Player s)
      else if gameName e = ''Rock Paper Scissors''
      then handleGameEnd e Opponent s
      else s)"

definition tick :: "env \<Rightarrow> state \<Rightarrow> state" where
  "tick e s =
     (if timerSuspended s then s
      else if turnTime s \<le> 1 then (onTimeout e s)\<lparr>turnTime := 0\<rparr>
      else s\<lparr>turnTime := turnTime s - 1\<rparr>)"

fun ticks :: "env \<Rightarrow> nat \<Rightarrow> state \<Rightarrow> state" where
  "ticks e 0 s = s"
| "ticks e (Suc n) s = ticks e n (tick e s)"

section \<open>Local input as the page offers it\<close>

text \<open>
  A click reaches its handler through a button of the page. The Tic-Tac-Toe grid has one
  button per cell of the board, the Connect-Four grid one per column (on the top row of
  its 42 cells), the Rock-Paper-Scissors panel three while no choice is pending. Each
  carries a \<^verbatim>\<open>disabled\<close> attribute; a disabled button delivers no click.
\<close>

definition tttCellDisabled :: "env \<Rightarrow> state \<Rightarrow> bool" where
  "tttCellDisabled e s =
     (gameState s = Finished \<or> \<not> started s
      \<or> tttCurrentPlayer s \<noteq> playerSymbolOf (side s) (role e) \<or> fadingCell s \<noteq> None)"

definition clickTTTCell :: "env \<Rightarrow> nat \<Rightarrow> state \<Rightarrow> state" where
  "clickTTTCell e index s =
     (if gameName e = ''Tic-Tac-Toe'' \<and> index < length (tttBoard s) \<and> \<not> tttCellDisabled e s
      then handleTTTCellClick e index s else s)"

definition c4ColumnDisabled :: "env \<Rightarrow> state \<Rightarrow> bool" where
  "c4ColumnDisabled e s =
     (gameState s = Finished \<or> c4CurrentPlayer s \<noteq> playerColorOf (side s) (role e)
      \<or> c4DroppingToken s \<noteq> None)"

definition clickC4Column :: "env \<Rightarrow> nat \<Rightarrow> state \<Rightarrow> state" where
  "clickC4Column e col s =
     (if gameName e = ''Connect Four'' \<and> col < 7 \<and> \<not> c4ColumnDisabled e s
      then handleC4ColumnClick e col s else s)"

definition clickRPSChoice :: "env \<Rightarrow> rps \<Rightarrow> state \<Rightarrow> state" where
  "clickRPSChoice e c s =
     (if gameName e = ''Rock Paper Scissors'' \<and> \<not> rpsWaitingForOpponent s \<and> \<not> rpsRevealing s
         \<and> gameState s \<noteq> Finished
      then handleRPSChoice e (Some c) s else s)"

section \<open>Events\<close>

definition fireTimer :: "env \<Rightarrow> nat \<Rightarrow> timer \<Rightarrow> state \<Rightarrow> state" where
  "fireTimer e r t s =
     (case t of
        TTTPlayerDecay b old i ms ps os oms \<Rightarrow> fireTTTPlayerDecay e b old i ms ps os oms s
      | TTTAIThink b ms \<Rightarrow> fireTTTAIThink e r b ms s
      | TTTAIDecay b old i ms \<Rightarrow> fireTTTAIDecay e b old i ms s
      | C4PlayerDrop b row col pc oc \<Rightarrow> fireC4PlayerDrop e b row col pc oc s
      | C4Reset \<Rightarrow> fireC4Reset s
      | C4AIThink b \<Rightarrow> fireC4AIThink r b s
      | C4AIDrop b row col \<Rightarrow> fireC4AIDrop e b row col s
      | RPSAIThink c p q \<Rightarrow> fireRPSAIThink r c p q s
      | RPSAIResult c oc p q \<Rightarrow> fireRPSAIResult c oc p q s
      | RPSAIAdvance p q \<Rightarrow> fireRPSAIAdvance e p q s
      | RPSRevealResult res \<Rightarrow> fireRPSRevealResult res s
      | RPSRevealAdvance \<Rightarrow> nextRound s)"

text \<open>
  \<open>Fire k r\<close> runs the pending continuation number \<open>k\<close> with the random draw \<open>r\<close>;
  the continuations may run in any order. \<open>ClickForfeit\<close> is the confirming button of
  the forfeit dialog. A socket event is delivered by the client, so only when there is one.
  After each handler the effects of the new render run (\<open>step\<close>).
\<close>

datatype event =
    Tick
  | ClickTTT nat
  | ClickC4 nat
  | ClickRPS rps
  | ClickForfeit
  | WsOpponentMove "int option"
  | WsGameEnd game_end_data
  | WsStart start_data
  | WsState state_data
  | WsRpsReveal rps_reveal
  | Fire nat nat

definition handleEvent :: "env \<Rightarrow> event \<Rightarrow> state \<Rightarrow> state" where
  "handleEvent e ev s =
     (case ev of
        Tick \<Rightarrow> tick e s
      | ClickTTT i \<Rightarrow> clickTTTCell e i s
      | ClickC4 c \<Rightarrow> clickC4Column e c s
      | ClickRPS c \<Rightarrow> clickRPSChoice e c s
      | ClickForfeit \<Rightarrow> handleForfeit e s
      | WsOpponentMove el \<Rightarrow> (if gameClient s then onOpponentMove e el s else s)
      | WsGameEnd d \<Rightarrow> (if gameClient s then onGameEnd e d s else s)
      | WsStart d \<Rightarrow> (if gameClient s then onStart d s else s)
      | WsState d \<Rightarrow> (if gameClient s then onState e d s else s)
      | WsRpsReveal d \<Rightarrow> (if gameClient s then onRpsReveal e d s else s)
      | Fire k r \<Rightarrow>
          (if k < length (timers s)
           then fireTimer e r (snd (timers s ! k))
                  (s\<lparr>timers := take k (timers s) @ drop (Suc k) (timers s)\<rparr>)
           else s))"

definition step :: "env \<Rightarrow> event \<Rightarrow> state \<Rightarrow> state" where
  "step e ev s = commitEffects e (handleEvent e ev s)"

fun run :: "env \<Rightarrow> event list \<Rightarrow> state \<Rightarrow> state" where
  "run e [] s = s"
| "run e (ev # evs) s = run e evs (step e ev s)"

text \<open>
  The state after the first render and its effects: the initial values of the state
  cells, and a game client when the opponent is a player and there is a match id.
\<close>

definition initialState :: "env \<Rightarrow> state" where
  "initialState e =
     \<lparr>turnTime = 30, gameState = Playing, winner = None, earnedARK = 0, earnedXP = 0,
      opponentXP = 800, gameClient = (opponentType e = OppPlayer \<and> truthy (matchId e)),
      started = (opponentType e \<noteq> OppPlayer), pendingWinnerSide = None, side = None,
      tttBoard = replicate 9 None, tttCurrentPlayer = ''X'', playerMoves = [],
      opponentMoves = [], fadingCell = None, c4Board = replicate 42 None,
      c4CurrentPlayer = ''red'', c4DroppingToken = None, c4RoundCount = 1,
      rpsPlayerChoice = None, rpsOpponentChoice = None, rpsPlayerScore = 0,
      rpsOpponentScore = 0, rpsCurrentRound = 1, rpsRoundResult = None,
      rpsRevealing = False, rpsWaitingForOpponent = False, pendingRpsReveal = None,
      timers = [], sent = [], gameEndCalls = []\<rparr>"

section \<open>Example sessions\<close>

text \<open>
  Concrete props and messages for the worked examples below. \<open>exampleXP\<close> stands in for
  the XP policy, which the examples never depend on.
\<close>

definition exampleXP :: "bool \<Rightarrow> int \<Rightarrow> int \<Rightarrow> int" where
  "exampleXP won mine theirs = (if won then 25 else - 25)"

definition envMulti :: env where
  "envMulti = \<lparr>gameName = ''Tic-Tac-Toe'', stakeAmount = 10, playMode = Stake,
     matchId = Some ''m1'', opponentWallet = Some ''0xB'', role = None,
     opponentType = OppPlayer, address = Some ''0xA'', xp = 1000,
     calculateXPChange = exampleXP, clientSide = None\<rparr>"

definition envLocal :: env where
  "envLocal = \<lparr>gameName = ''Tic-Tac-Toe'', stakeAmount = 0, playMode = Free,
     matchId = None, opponentWallet = None, role = None,
     opponentType = OppAI, address = Some ''0xA'', xp = 1000,
     calculateXPChange = exampleXP, clientSide = None\<rparr>"

definition gameEndA :: game_end_data where
  "gameEndA = \<lparr>isDraw = False, winnerSide = Some ''a'', winnerAddr = None\<rparr>"

definition startB :: start_data where
  "startB = \<lparr>startSide = Some ''b'', startCurrent = Some ''a'', startElapsed = None\<rparr>"

text \<open>
  A multiplayer match in which the local participant got side b and the opponent, who
  plays X, is to move.
\<close>

definition sideBWaiting :: state where
  "sideBWaiting = run envMulti [WsStart startB] (initialState envMulti)"

definition fadingLastSecond :: state where
  "fadingLastSecond = (initialState envLocal)\<lparr>fadingCell := Some 0, turnTime := 1\<rparr>"

definition wonLocal :: state where
  "wonLocal = handleGameEnd envLocal Player (initialState envLocal)"

text \<open>
  A local game: X on 0, 1, 3 and the machine on 2, 4, 5; then X plays 6, which evicts 0.
\<close>

definition openingMoves :: "event list" where
  "openingMoves = [ClickTTT 0, Fire 0 1, ClickTTT 1, Fire 0 1, ClickTTT 3, Fire 0 0]"

definition threeEach :: state where
  "threeEach = run envLocal openingMoves (initialState envLocal)"

definition afterDecay :: state where
  "afterDecay = run envLocal (openingMoves @ [ClickTTT 6, Fire 0 0]) (initialState envLocal)"

definition boardAfterDecay :: "cell list" where
  "boardAfterDecay = [None, Some ''X'', Some ''O'', Some ''X'', Some ''O'', Some ''O'',
                      Some ''X'', None, None]"

text \<open>
  A local Connect-Four round played to a full board without a line: red and yellow in
  pairs along each row, the rows alternating. The machine always takes the first free
  column; its last drop, in column 6, fills the board. \<open>redLastPending\<close> is the same
  board with the last free cell in column 0 and red to drop into it.
\<close>

definition envC4 :: env where
  "envC4 = envLocal\<lparr>gameName := ''Connect Four''\<rparr>"

definition drawnRound :: "event list" where
  "drawnRound = concat (map (\<lambda>c. [ClickC4 c, Fire 0 0, Fire 0 0, Fire 0 0])
      [2, 0, 0, 0, 1, 1, 1, 2, 2, 3, 3, 3, 6, 4, 4, 4, 5, 5, 5, 6, 6])"

definition lastDropPending :: state where
  "lastDropPending = run envC4 (butlast drawnRound) (initialState envC4)"

definition rowRR :: "cell list" where
  "rowRR = [Some ''red'', Some ''red'', Some ''yellow'', Some ''yellow'', Some ''red'', Some ''red'', Some ''yellow'']"

definition rowYY :: "cell list" where
  "rowYY = [Some ''yellow'', Some ''yellow'', Some ''red'', Some ''red'', Some ''yellow'', Some ''yellow'', Some ''red'']"

definition almostFull :: "cell list" where
  "almostFull = (rowRR @ rowYY @ rowRR @ rowYY @ rowRR @ rowYY)[6 := None]"

definition redToFill :: "cell list" where
  "redToFill = (rowRR @ rowYY @ rowRR @ rowYY @ rowRR @ rowYY)[0 := None]"

definition redLastPending :: state where
  "redLastPending = handleC4ColumnClick envC4 0 ((initialState envC4)\<lparr>c4Board := redToFill\<rparr>)"

text \<open>Multiplayer sessions in which the local participant is side a and moves first.\<close>

definition startA :: start_data where
  "startA = \<lparr>startSide = Some ''a'', startCurrent = Some ''a'', startElapsed = None\<rparr>"

definition envMultiC4 :: env where
  "envMultiC4 = envMulti\<lparr>gameName := ''Connect Four''\<rparr>"

definition snapshotX4 :: state_data where
  "snapshotX4 = \<lparr>board = [None, None, None, None, Some ''X'', None, None, None, None],
                  current = Some ''b'', elapsed = None\<rparr>"

definition startedA :: state where
  "startedA = run envMulti [WsStart startA] (initialState envMulti)"

definition startedA4 :: state where
  "startedA4 = run envMultiC4 [WsStart startA] (initialState envMultiC4)"

text \<open>Two snapshots of the server: X on 5, then X on 5 and 2 with O on 0.\<close>

definition snapshot5 :: state_data where
  "snapshot5 = \<lparr>board = [None, None, None, None, None, Some ''X'', None, None, None],
                 current = Some ''b'', elapsed = None\<rparr>"

definition snapshot25 :: state_data where
  "snapshot25 = \<lparr>board = [Some ''O'', None, Some ''X'', None, None, Some ''X'', None, None, None],
                  current = Some ''b'', elapsed = None\<rparr>"

declare digits.simps [simp del]

section \<open>Predicates used in the proofs\<close>

text \<open>
  In a multiplayer session the only continuations ever pending are those of a reveal, and
  a started session has a client: the start comes from the client.
\<close>

definition revealTimer :: "timer \<Rightarrow> bool" where
  "revealTimer t = (case t of RPSRevealResult res \<Rightarrow> True | RPSRevealAdvance \<Rightarrow> True | _ \<Rightarrow> False)"

definition multiplayerInv :: "state \<Rightarrow> bool" where
  "multiplayerInv s =
     (list_all (\<lambda>p. revealTimer (snd p)) (timers s) \<and> (started s \<longrightarrow> gameClient s))"

definition isStateEvent :: "event \<Rightarrow> bool" where
  "isStateEvent ev = (case ev of WsState d \<Rightarrow> True | _ \<Rightarrow> False)"

definition sameBoards :: "state \<Rightarrow> state \<Rightarrow> bool" where
  "sameBoards s s' = (tttBoard s' = tttBoard s \<and> c4Board s' = c4Board s)"

section \<open>Rewards\<close>

lemma truthy_simps [simp]: "truthy None = False" "truthy (Some t) = (t \<noteq> [])"
  by (simp_all add: truthy_def)

lemma handleGameEnd_finished: "gameState (handleGameEnd e w s) = Finished"
  by (simp add: handleGameEnd_def Let_def)

lemma handleGameEnd_winner: "winner (handleGameEnd e w s) = Some w"
  by (simp add: handleGameEnd_def Let_def)

text \<open>
  C4. Entering Finished goes through \<open>handleGameEnd\<close>. In a staked session a win gives
  an ARK delta of twice the stake and a loss gives minus the stake, the XP delta being
  \<open>calculateXPChange\<close> of (won, local XP, opponent XP); in a session that is not staked
  both deltas are zero whatever the outcome.
\<close>

theorem C4_reward_deltas:
  "gameState (handleGameEnd e w s) = Finished \<and>
   (playMode e = Stake \<longrightarrow>
      earnedARK (handleGameEnd e Player s) = 2 * stakeAmount e \<and>
      earnedXP (handleGameEnd e Player s) = calculateXPChange e True (xp e) (opponentXP s) \<and>
      earnedARK (handleGameEnd e Opponent s) = - stakeAmount e \<and>
      earnedXP (handleGameEnd e Opponent s) = calculateXPChange e False (xp e) (opponentXP s)) \<and>
   (playMode e \<noteq> Stake \<longrightarrow>
      earnedARK (handleGameEnd e w s) = 0 \<and> earnedXP (handleGameEnd e w s) = 0)"
  by (simp add: handleGameEnd_def Let_def)

text \<open>
  The scenario of the specification: local XP 1000, opponent XP 800, stake 10. A win
  gives +20, a loss -10; in free play a win gives 0 and 0.
\<close>

theorem C4_reward_deltas_witness:
  "playMode envMulti = Stake \<and> stakeAmount envMulti = 10 \<and> xp envMulti = 1000
   \<and> opponentXP (initialState envMulti) = 800
   \<and> earnedARK (handleGameEnd envMulti Player (initialState envMulti)) = 20
   \<and> earnedARK (handleGameEnd envMulti Opponent (initialState envMulti)) = - 10
   \<and> earnedXP (handleGameEnd envMulti Player (initialState envMulti)) = exampleXP True 1000 800
   \<and> playMode envLocal = Free
   \<and> earnedARK (handleGameEnd envLocal Player (initialState envLocal)) = 0
   \<and> earnedXP (handleGameEnd envLocal Player (initialState envLocal)) = 0"
  using C4_reward_deltas [of envMulti Player "initialState envMulti"]
        C4_reward_deltas [of envLocal Player "initialState envLocal"]
  by (simp add: envMulti_def envLocal_def initialState_def)

text \<open>
  C10. In a staked session a draw is rewarded as a loss is: the reward branches on
  \<^verbatim>\<open>gameWinner === "player"\<close> only.
\<close>

theorem C10_draw_rewarded_as_loss:
  "playMode e = Stake \<Longrightarrow>
     earnedARK (handleGameEnd e Draw s) = - stakeAmount e \<and>
     earnedXP (handleGameEnd e Draw s) = calculateXPChange e False (xp e) (opponentXP s) \<and>
     earnedARK (handleGameEnd e Draw s) = earnedARK (handleGameEnd e Opponent s) \<and>
     earnedXP (handleGameEnd e Draw s) = earnedXP (handleGameEnd e Opponent s) \<and>
     winner (handleGameEnd e Draw s) = Some Draw"
  by (simp add: handleGameEnd_def Let_def)

theorem C10_draw_rewarded_as_loss_witness:
  "playMode envMulti = Stake
   \<and> earnedARK (handleGameEnd envMulti Draw (initialState envMulti)) = - 10
   \<and> earnedXP (handleGameEnd envMulti Draw (initialState envMulti)) = exampleXP False 1000 800
   \<and> winner (handleGameEnd envMulti Draw (initialState envMulti)) = Some Draw"
proof -
  have stake: "playMode envMulti = Stake" by (simp add: envMulti_def)
  show ?thesis
    using stake C10_draw_rewarded_as_loss [OF stake, of "initialState envMulti"]
    by (simp add: envMulti_def initialState_def)
qed

section \<open>A terminal event that arrives before the side is known\<close>

lemma commitEffects_idle: "\<not> truthy (side s) \<Longrightarrow> commitEffects e s = s"
  by (simp add: commitEffects_def resolvePendingWinner_def replayPendingReveal_def)

lemma commitEffects_finished: "gameState s = Finished \<Longrightarrow> commitEffects e s = s"
  by (simp add: commitEffects_def resolvePendingWinner_def replayPendingReveal_def)

lemma onStart_fields:
  "gameState (onStart d s) = gameState s"
  "winner (onStart d s) = winner s"
  "gameEndCalls (onStart d s) = gameEndCalls s"
  "pendingWinnerSide (onStart d s) = pendingWinnerSide s"
  "side (onStart d s) =
     (if startSide d = Some ''a'' \<or> startSide d = Some ''b'' then startSide d else side s)"
  by (simp_all add: onStart_def Let_def syncTurnTime_def resetTurnTimer_def
        split: option.splits)

lemma showReveal_fields:
  "gameState (showReveal m d s) = gameState s"
  "winner (showReveal m d s) = winner s"
  "gameEndCalls (showReveal m d s) = gameEndCalls s"
  "pendingWinnerSide (showReveal m d s) = pendingWinnerSide s"
  by (simp_all add: showReveal_def Let_def schedule_def)

lemma replayPendingReveal_fields:
  "gameState (replayPendingReveal e r s) = gameState s"
  "winner (replayPendingReveal e r s) = winner s"
  "gameEndCalls (replayPendingReveal e r s) = gameEndCalls s"
  "pendingWinnerSide (replayPendingReveal e r s) = pendingWinnerSide s"
  by (simp_all add: replayPendingReveal_def showReveal_fields split: option.splits)

lemma resolvePendingWinner_fires:
  assumes "gameState r = Playing" and "truthy (pendingWinnerSide r)" and "truthy (side r)"
  shows "gameState (resolvePendingWinner e r s) = Finished"
    and "winner (resolvePendingWinner e r s)
           = Some (if pendingWinnerSide r = side r then Player else Opponent)"
    and "gameEndCalls (resolvePendingWinner e r s)
           = gameEndCalls s @ [if pendingWinnerSide r = side r then Player else Opponent]"
    and "pendingWinnerSide (resolvePendingWinner e r s) = None"
  using assms by (simp_all add: resolvePendingWinner_def handleGameEnd_def Let_def)

text \<open>
  C1. The socket delivers \<^verbatim>\<open>game_end\<close> with a winning side while the side of the local
  participant is unknown, then \<^verbatim>\<open>start\<close> with the side \<open>sd\<close>, the session still
  Playing. After the first event the session is still Playing, no outcome is recorded
  and the winning side is buffered. After the second the session is Finished with Win
  when the buffered side is \<open>sd\<close> and Loss otherwise; \<open>handleGameEnd\<close> has been called
  once, the buffer is empty, and running the effects again changes nothing.
\<close>

theorem C1_buffered_outcome_resolved_on_start:
  assumes "clientSide e = None" and "side s = None" and "gameState s = Playing"
    and "gameClient s" and "\<not> isDraw d" and "truthy (winnerSide d)"
    and "startSide st = Some sd" and "sd = ''a'' \<or> sd = ''b''"
  shows "let s1 = step e (WsGameEnd d) s; s2 = step e (WsStart st) s1;
             verdict = (if winnerSide d = Some sd then Player else Opponent)
         in gameState s1 = Playing \<and> winner s1 = winner s \<and> gameEndCalls s1 = gameEndCalls s
            \<and> pendingWinnerSide s1 = winnerSide d
            \<and> gameState s2 = Finished \<and> winner s2 = Some verdict
            \<and> gameEndCalls s2 = gameEndCalls s @ [verdict]
            \<and> pendingWinnerSide s2 = None
            \<and> commitEffects e s2 = s2"
proof -
  define s1 where "s1 = step e (WsGameEnd d) s"
  define t where "t = onStart st s1"
  define s2 where "s2 = step e (WsStart st) s1"
  have s1: "s1 = s\<lparr>pendingWinnerSide := winnerSide d\<rparr>"
    using assms by (simp add: s1_def step_def handleEvent_def onGameEnd_def commitEffects_idle)
  have s2: "s2 = replayPendingReveal e t (resolvePendingWinner e t t)"
    using assms by (simp add: s2_def t_def s1 step_def handleEvent_def commitEffects_def)
  have t: "gameState t = Playing" "pendingWinnerSide t = winnerSide d" "side t = Some sd"
    "winner t = winner s" "gameEndCalls t = gameEndCalls s"
    using assms by (auto simp add: t_def s1 onStart_fields)
  have sd: "truthy (side t)" using assms t by auto
  have pw: "truthy (pendingWinnerSide t)" using assms t by simp
  note r = resolvePendingWinner_fires [OF t(1) pw sd, of e t]
  have fin: "gameState s2 = Finished"
    by (simp add: s2 replayPendingReveal_fields r)
  have "gameState s1 = Playing \<and> winner s1 = winner s \<and> gameEndCalls s1 = gameEndCalls s
            \<and> pendingWinnerSide s1 = winnerSide d"
    using assms by (simp add: s1)
  moreover have "winner s2 = Some (if winnerSide d = Some sd then Player else Opponent)"
    by (simp add: s2 replayPendingReveal_fields r t)
  moreover have "gameEndCalls s2
      = gameEndCalls s @ [if winnerSide d = Some sd then Player else Opponent]"
    by (simp add: s2 replayPendingReveal_fields r t)
  moreover have "pendingWinnerSide s2 = None"
    by (simp add: s2 replayPendingReveal_fields r)
  moreover have "commitEffects e s2 = s2"
    using fin by (rule commitEffects_finished)
  ultimately show ?thesis
    using fin unfolding Let_def s1_def [symmetric] s2_def [symmetric] by simp
qed

text \<open>
  The scenario of the specification: \<^verbatim>\<open>game_end{winnerSide: "a"}\<close> before
  \<^verbatim>\<open>start{side: "b"}\<close> ends as a Loss.
\<close>

theorem C1_buffered_outcome_resolved_on_start_witness:
  "side (initialState envMulti) = None \<and> gameClient (initialState envMulti)
   \<and> gameState (step envMulti (WsGameEnd gameEndA) (initialState envMulti)) = Playing
   \<and> pendingWinnerSide (step envMulti (WsGameEnd gameEndA) (initialState envMulti)) = Some ''a''
   \<and> gameState (run envMulti [WsGameEnd gameEndA, WsStart startB] (initialState envMulti))
       = Finished
   \<and> winner (run envMulti [WsGameEnd gameEndA, WsStart startB] (initialState envMulti))
       = Some Opponent
   \<and> gameEndCalls (run envMulti [WsGameEnd gameEndA, WsStart startB] (initialState envMulti))
       = [Opponent]"
  using C1_buffered_outcome_resolved_on_start
          [of envMulti "initialState envMulti" gameEndA startB "''b''"]
  by (simp add: envMulti_def initialState_def gameEndA_def startB_def Let_def)

section \<open>The turn clock: suspension and expiry\<close>

lemma tick_suspended: "timerSuspended s \<Longrightarrow> tick e s = s"
  by (simp add: tick_def)

lemma ticks_suspended: "timerSuspended s \<Longrightarrow> ticks e n s = s"
  by (induction n) (simp_all add: tick_suspended)

lemma ticks_add: "ticks e (m + n) s = ticks e n (ticks e m s)"
  by (induction m arbitrary: s) simp_all

lemma timerSuspended_turnTime: "timerSuspended (s\<lparr>turnTime := v\<rparr>) = timerSuspended s"
  by (simp add: timerSuspended_def)

lemma handleGameEnd_turnTime:
  "handleGameEnd e w (s\<lparr>turnTime := v\<rparr>) = (handleGameEnd e w s)\<lparr>turnTime := v\<rparr>"
  by (simp add: handleGameEnd_def Let_def)

lemma onTimeout_turnTime: "onTimeout e (s\<lparr>turnTime := v\<rparr>) = (onTimeout e s)\<lparr>turnTime := v\<rparr>"
  by (simp add: onTimeout_def handleGameEnd_turnTime)

lemma ticks_countdown:
  "\<not> timerSuspended s \<Longrightarrow> turnTime s = int (Suc n)
     \<Longrightarrow> ticks e (Suc n) s = (onTimeout e s)\<lparr>turnTime := 0\<rparr>"
proof (induction n arbitrary: s)
  case 0
  then show ?case by (simp add: tick_def)
next
  case (Suc n)
  have step1: "tick e s = s\<lparr>turnTime := int (Suc n)\<rparr>"
    using Suc.prems by (simp add: tick_def)
  have "ticks e (Suc (Suc n)) s = ticks e (Suc n) (s\<lparr>turnTime := int (Suc n)\<rparr>)"
    using step1 by simp
  also have "\<dots> = (onTimeout e (s\<lparr>turnTime := int (Suc n)\<rparr>))\<lparr>turnTime := 0\<rparr>"
    using Suc.prems by (intro Suc.IH) (simp_all add: timerSuspended_turnTime)
  also have "\<dots> = (onTimeout e s)\<lparr>turnTime := 0\<rparr>"
    by (simp add: onTimeout_turnTime)
  finally show ?case .
qed

lemma onTimeout_ends:
  assumes "gameName e = ''Tic-Tac-Toe'' \<or> gameName e = ''Connect Four''
             \<or> gameName e = ''Rock Paper Scissors''"
  shows "gameState (onTimeout e s) = Finished"
    and "length (gameEndCalls (onTimeout e s)) = Suc (length (gameEndCalls s))"
  using assms by (auto simp add: onTimeout_def handleGameEnd_def Let_def)

text \<open>
  What holds of the clock whoever is on it: from 30 with no gate, the thirtieth tick
  ends the match through one call of \<open>handleGameEnd\<close>, and later ticks change nothing.
\<close>

lemma clock_expires_once:
  assumes "gameName e = ''Tic-Tac-Toe'' \<or> gameName e = ''Connect Four''
             \<or> gameName e = ''Rock Paper Scissors''"
    and "\<not> timerSuspended s" and "turnTime s = 30"
  shows "ticks e 30 s = (onTimeout e s)\<lparr>turnTime := 0\<rparr>"
    and "ticks e (30 + k) s = ticks e 30 s"
    and "gameState (ticks e 31 s) = Finished"
    and "length (gameEndCalls (ticks e (30 + k) s)) = Suc (length (gameEndCalls s))"
proof -
  have t30: "ticks e (Suc 29) s = (onTimeout e s)\<lparr>turnTime := 0\<rparr>"
    using assms by (intro ticks_countdown) simp_all
  then show a: "ticks e 30 s = (onTimeout e s)\<lparr>turnTime := 0\<rparr>" by simp
  have fin: "timerSuspended (ticks e 30 s)"
    using onTimeout_ends(1) [OF assms(1), of s] by (simp add: a timerSuspended_def)
  show b: "ticks e (30 + k) s = ticks e 30 s"
    by (simp only: ticks_add ticks_suspended [OF fin])
  have "ticks e 31 s = ticks e (30 + 1) s" by simp
  also have "\<dots> = ticks e 30 s" by (simp only: ticks_add ticks_suspended [OF fin])
  finally show "gameState (ticks e 31 s) = Finished"
    using onTimeout_ends(1) [OF assms(1), of s] by (simp add: a)
  show "length (gameEndCalls (ticks e (30 + k) s)) = Suc (length (gameEndCalls s))"
    using onTimeout_ends(2) [OF assms(1), of s] by (simp add: b a)
qed

lemma sideBWaiting_eq:
  "sideBWaiting = (initialState envMulti)\<lparr>side := Some ''b'', started := True\<rparr>"
  by (simp add: sideBWaiting_def step_def handleEvent_def onStart_def Let_def startB_def
      resetTurnTimer_def commitEffects_def resolvePendingWinner_def replayPendingReveal_def
      initialState_def envMulti_def)

text \<open>
  C3, at an input where the code departs from it. The local participant has side b and
  so plays O; the opponent, X, is on the clock. The clock starts at 30, the thirtieth tick
  ends the match, once, and the recorded outcome is a win of the opponent: the handler
  of the expiry takes X for the local side whatever the side is, so the side that ran out
  of time wins.
\<close>

theorem C3_clock_of_opponent_expires_as_local_loss:
  "side sideBWaiting = Some ''b''
   \<and> playerSymbolOf (side sideBWaiting) (role envMulti) = ''O''
   \<and> tttCurrentPlayer sideBWaiting = ''X''
   \<and> turnTime sideBWaiting = 30
   \<and> gameState (ticks envMulti 30 sideBWaiting) = Finished
   \<and> winner (ticks envMulti 30 sideBWaiting) = Some Opponent
   \<and> gameEndCalls (ticks envMulti 31 sideBWaiting) = [Opponent]"
proof -
  have g: "gameName envMulti = ''Tic-Tac-Toe'' \<or> gameName envMulti = ''Connect Four''
             \<or> gameName envMulti = ''Rock Paper Scissors''"
    by (simp add: envMulti_def)
  have ns: "\<not> timerSuspended sideBWaiting"
    by (simp add: sideBWaiting_eq timerSuspended_def initialState_def)
  have tt: "turnTime sideBWaiting = 30"
    by (simp add: sideBWaiting_eq initialState_def)
  have t30: "ticks envMulti 30 sideBWaiting = (onTimeout envMulti sideBWaiting)\<lparr>turnTime := 0\<rparr>"
    by (rule clock_expires_once(1) [OF g ns tt])
  have t31: "ticks envMulti 31 sideBWaiting = ticks envMulti 30 sideBWaiting"
    using clock_expires_once(2) [OF g ns tt, of 1] by simp
  have ot: "onTimeout envMulti sideBWaiting = handleGameEnd envMulti Opponent sideBWaiting"
    by (simp add: onTimeout_def envMulti_def sideBWaiting_eq initialState_def)
  show ?thesis
    unfolding t31 t30 ot
    by (simp add: sideBWaiting_eq initialState_def envMulti_def playerSymbolOf_def
        handleGameEnd_def Let_def)
qed

theorem C3_clock_of_opponent_expires_as_local_loss_witness:
  "winner (ticks envMulti 30 sideBWaiting) \<noteq> Some Player"
  using C3_clock_of_opponent_expires_as_local_loss by simp

text \<open>
  C7. While a piece fades, a token drops, the opponent's choice is awaited or a reveal
  runs, a tick of the turn clock changes nothing: the remaining seconds, the phase and
  the calls of \<open>handleGameEnd\<close> stay as they are, for any number of ticks.
\<close>

theorem C7_clock_suspended_while_gated:
  assumes "fadingCell s \<noteq> None \<or> c4DroppingToken s \<noteq> None
             \<or> rpsWaitingForOpponent s \<or> rpsRevealing s"
  shows "tick e s = s \<and> ticks e n s = s
         \<and> turnTime (ticks e n s) = turnTime s \<and> gameState (ticks e n s) = gameState s
         \<and> gameEndCalls (ticks e n s) = gameEndCalls s"
proof -
  have "timerSuspended s" using assms by (auto simp add: timerSuspended_def)
  then show ?thesis by (simp add: tick_suspended ticks_suspended)
qed

text \<open>
  One second left and a piece fading: five ticks leave the second and the phase; without
  the gate the first tick would end the match.
\<close>

theorem C7_clock_suspended_while_gated_witness:
  "fadingCell fadingLastSecond \<noteq> None
   \<and> turnTime (ticks envLocal 5 fadingLastSecond) = 1
   \<and> gameState (ticks envLocal 5 fadingLastSecond) = Playing
   \<and> gameState (tick envLocal (fadingLastSecond\<lparr>fadingCell := None\<rparr>)) = Finished"
proof -
  have gate: "fadingCell fadingLastSecond \<noteq> None \<or> c4DroppingToken fadingLastSecond \<noteq> None
             \<or> rpsWaitingForOpponent fadingLastSecond \<or> rpsRevealing fadingLastSecond"
    by (simp add: fadingLastSecond_def)
  have "gameState (tick envLocal (fadingLastSecond\<lparr>fadingCell := None\<rparr>)) = Finished"
    by (simp add: tick_def timerSuspended_def fadingLastSecond_def initialState_def
         onTimeout_def envLocal_def handleGameEnd_def Let_def)
  then show ?thesis
    using gate C7_clock_suspended_while_gated [OF gate, of envLocal 5]
    by (simp add: fadingLastSecond_def initialState_def)
qed

section \<open>Input after the end of the match\<close>

text \<open>
  C8. Once the phase is Finished a click on a cell, on a column or on a choice changes
  nothing at all: every button of the three boards is disabled then.
\<close>

theorem C8_input_ignored_once_finished:
  assumes "gameState s = Finished"
  shows "clickTTTCell e i s = s \<and> clickC4Column e c s = s \<and> clickRPSChoice e ch s = s
         \<and> step e (ClickTTT i) s = s \<and> step e (ClickC4 c) s = s \<and> step e (ClickRPS ch) s = s"
  using assms
  by (simp add: clickTTTCell_def tttCellDisabled_def clickC4Column_def c4ColumnDisabled_def
      clickRPSChoice_def step_def handleEvent_def commitEffects_finished)

theorem C8_input_ignored_once_finished_witness:
  "gameState wonLocal = Finished
   \<and> clickTTTCell envLocal 0 wonLocal = wonLocal
   \<and> clickC4Column envLocal 3 wonLocal = wonLocal
   \<and> clickRPSChoice envLocal Rock wonLocal = wonLocal"
proof -
  have fin: "gameState wonLocal = Finished"
    by (simp add: wonLocal_def handleGameEnd_finished)
  show ?thesis
    using fin C8_input_ignored_once_finished [OF fin, of envLocal 0 3 Rock] by simp
qed

text \<open>
  The guard is the \<^verbatim>\<open>disabled\<close> attribute of the buttons: the handler itself does not
  look at the phase, and called on its own after the end it places a mark.
\<close>

lemma handler_has_no_phase_guard:
  "cellAt (tttBoard wonLocal) 0 = None
   \<and> cellAt (tttBoard (handleTTTCellClick envLocal 0 wonLocal)) 0 = Some ''X''"
  by (simp add: wonLocal_def handleTTTCellClick_def handleGameEnd_def Let_def envLocal_def
       initialState_def playerSymbolOf_def opponentSymbolOf_def cellAt_def checkTTTWinner_def
       tttLines_def resetTurnTimer_def schedule_def)

section \<open>Tic-Tac-Toe: eviction of the oldest mark\<close>

lemma pick_in: "xs \<noteq> [] \<Longrightarrow> pick r xs \<in> set xs"
  by (simp add: pick_def)

lemma emptySpots_iff: "i \<in> set (emptySpots b) \<longleftrightarrow> i < length b \<and> b ! i = None"
  by (auto simp add: emptySpots_def)

lemma cellAt_evicted:
  "old < length b \<Longrightarrow> old \<noteq> i \<Longrightarrow> cellAt (b[old := None, i := v]) old = None"
  by (simp add: cellAt_def)

lemma cellAt_placed:
  "i < length b \<Longrightarrow> cellAt (b[old := None, i := v]) i = v"
  by (simp add: cellAt_def)

lemma fire_last:
  "handleEvent e (Fire (length ts) r) (s\<lparr>timers := ts @ [(ms, t)]\<rparr>)
     = fireTimer e r t (s\<lparr>timers := ts\<rparr>)"
  by (simp add: handleEvent_def nth_append)

lemma player_decay_click:
  assumes "opponentType e = OppAI" and "started s"
    and "\<not> truthy (cellAt (tttBoard s) index)"
    and "tttCurrentPlayer s = playerSymbolOf (side s) (role e)"
    and "fadingCell s = None" and "3 \<le> length (playerMoves s)"
  shows "handleTTTCellClick e index s
     = s\<lparr>fadingCell := Some (hd (playerMoves s)),
          timers := timers s @ [(400, TTTPlayerDecay (tttBoard s) (hd (playerMoves s)) index
               (playerMoves s) (playerSymbolOf (side s) (role e))
               (opponentSymbolOf (side s) (role e)) (opponentMoves s))]\<rparr>"
  using assms by (simp add: handleTTTCellClick_def Let_def schedule_def)

lemma player_decay_fire:
  "tttBoard (fireTTTPlayerDecay e b old i ms ps os oms s) = b[old := None, i := Some ps]"
  "fadingCell (fireTTTPlayerDecay e b old i ms ps os oms s) = None"
  "playerMoves (fireTTTPlayerDecay e b old i ms ps os oms s) = tl ms @ [i]"
  "checkTTTWinner (b[old := None, i := Some ps]) = Some ps \<Longrightarrow>
     gameState (fireTTTPlayerDecay e b old i ms ps os oms s) = Finished
     \<and> winner (fireTTTPlayerDecay e b old i ms ps os oms s) = Some Player"
  "checkTTTWinner (b[old := None, i := Some ps]) \<noteq> Some ps \<Longrightarrow>
     gameState (fireTTTPlayerDecay e b old i ms ps os oms s) = gameState s
     \<and> winner (fireTTTPlayerDecay e b old i ms ps os oms s) = winner s
     \<and> gameEndCalls (fireTTTPlayerDecay e b old i ms ps os oms s) = gameEndCalls s
     \<and> tttCurrentPlayer (fireTTTPlayerDecay e b old i ms ps os oms s) = os"
  by (simp_all add: fireTTTPlayerDecay_def Let_def handleGameEnd_def resetTurnTimer_def
        schedule_def)

lemma ai_decay_think:
  assumes "emptySpots cb \<noteq> []" and "3 \<le> length om"
  shows "fireTTTAIThink e r cb om s
     = s\<lparr>fadingCell := Some (hd om),
          timers := timers s @ [(400, TTTAIDecay cb (hd om) (pick r (emptySpots cb)) om)]\<rparr>"
  using assms by (simp add: fireTTTAIThink_def Let_def schedule_def)

lemma ai_decay_fire:
  "tttBoard (fireTTTAIDecay e b old i ms s) = b[old := None, i := Some ''O'']"
  "fadingCell (fireTTTAIDecay e b old i ms s) = None"
  "opponentMoves (fireTTTAIDecay e b old i ms s) = tl ms @ [i]"
  "checkTTTWinner (b[old := None, i := Some ''O'']) = Some ''O'' \<Longrightarrow>
     gameState (fireTTTAIDecay e b old i ms s) = Finished
     \<and> winner (fireTTTAIDecay e b old i ms s) = Some Opponent"
  "checkTTTWinner (b[old := None, i := Some ''O'']) \<noteq> Some ''O'' \<Longrightarrow>
     gameState (fireTTTAIDecay e b old i ms s) = gameState s
     \<and> winner (fireTTTAIDecay e b old i ms s) = winner s
     \<and> gameEndCalls (fireTTTAIDecay e b old i ms s) = gameEndCalls s
     \<and> tttCurrentPlayer (fireTTTAIDecay e b old i ms s) = ''X''"
  by (simp_all add: fireTTTAIDecay_def Let_def handleGameEnd_def resetTurnTimer_def)

text \<open>
  C2. Local game, a side that holds three marks places a fourth: for the player by a
  click on a free cell, for the machine by the continuation of \<^verbatim>\<open>makeAIMove\<close>. At
  once the head of that side's history is set fading, a continuation is scheduled at
  400 ms, the board is as before and nothing is decided. When the continuation runs the
  board is the old one with the oldest cell emptied and then the new mark placed; the
  match ends exactly when \<open>checkTTTWinner\<close> of that board is the side that moved.
\<close>

theorem C2_oldest_evicted_before_win_check:
  assumes "opponentType e = OppAI" and "started s" and "index < length (tttBoard s)"
    and "\<not> truthy (cellAt (tttBoard s) index)"
    and "tttCurrentPlayer s = playerSymbolOf (side s) (role e)"
    and "fadingCell s = None" and "3 \<le> length (playerMoves s)"
    and "truthy (cellAt (tttBoard s) (hd (playerMoves s)))"
    and "emptySpots cb \<noteq> []" and "3 \<le> length om" and "cellAt cb (hd om) \<noteq> None"
  shows "(let me = playerSymbolOf (side s) (role e);
              oldest = hd (playerMoves s);
              post = (tttBoard s)[oldest := None, index := Some me];
              s1 = handleTTTCellClick e index s;
              s2 = handleEvent e (Fire (length (timers s)) r) s1
          in tttBoard s1 = tttBoard s \<and> fadingCell s1 = Some oldest
             \<and> gameState s1 = gameState s \<and> gameEndCalls s1 = gameEndCalls s
             \<and> map fst (drop (length (timers s)) (timers s1)) = [400]
             \<and> tttBoard s2 = post \<and> cellAt post oldest = None \<and> cellAt post index = Some me
             \<and> fadingCell s2 = None
             \<and> (if checkTTTWinner post = Some me
                 then gameState s2 = Finished \<and> winner s2 = Some Player
                 else gameState s2 = gameState s \<and> gameEndCalls s2 = gameEndCalls s))
       \<and> (let aiMove = pick r' (emptySpots cb);
                oldest = hd om;
                post = cb[oldest := None, aiMove := Some ''O''];
                a1 = fireTimer e r' (TTTAIThink cb om) a;
                a2 = handleEvent e (Fire (length (timers a)) r'') a1
            in tttBoard a1 = tttBoard a \<and> fadingCell a1 = Some oldest
               \<and> gameState a1 = gameState a \<and> gameEndCalls a1 = gameEndCalls a
               \<and> map fst (drop (length (timers a)) (timers a1)) = [400]
               \<and> tttBoard a2 = post \<and> cellAt post oldest = None
               \<and> cellAt post aiMove = Some ''O'' \<and> fadingCell a2 = None
               \<and> (if checkTTTWinner post = Some ''O''
                   then gameState a2 = Finished \<and> winner a2 = Some Opponent
                   else gameState a2 = gameState a \<and> gameEndCalls a2 = gameEndCalls a))"
proof -
  define me where "me = playerSymbolOf (side s) (role e)"
  define oldest where "oldest = hd (playerMoves s)"
  define post where "post = (tttBoard s)[oldest := None, index := Some me]"
  define decay where "decay = TTTPlayerDecay (tttBoard s) oldest index (playerMoves s) me
      (opponentSymbolOf (side s) (role e)) (opponentMoves s)"
  define s1 where "s1 = handleTTTCellClick e index s"
  define s2 where "s2 = handleEvent e (Fire (length (timers s)) r) s1"
  have s1: "s1 = s\<lparr>fadingCell := Some oldest, timers := timers s @ [(400, decay)]\<rparr>"
    unfolding s1_def oldest_def decay_def me_def using assms(1,2,4,5,6,7)
    by (rule player_decay_click)
  have s2: "s2 = fireTTTPlayerDecay e (tttBoard s) oldest index (playerMoves s) me
      (opponentSymbolOf (side s) (role e)) (opponentMoves s)
      (s\<lparr>fadingCell := Some oldest, timers := timers s\<rparr>)"
    unfolding s2_def s1 by (simp add: fire_last) (simp add: fireTimer_def decay_def)
  have old_in: "oldest < length (tttBoard s)" and old_ne: "oldest \<noteq> index"
    using assms(4,8) by (auto simp add: oldest_def cellAt_def split: if_splits)
  have p1: "tttBoard s1 = tttBoard s \<and> fadingCell s1 = Some oldest
             \<and> gameState s1 = gameState s \<and> gameEndCalls s1 = gameEndCalls s
             \<and> map fst (drop (length (timers s)) (timers s1)) = [400]"
    by (simp add: s1)
  have p2: "tttBoard s2 = post \<and> fadingCell s2 = None"
    by (simp add: s2 post_def player_decay_fire)
  have p3: "cellAt post oldest = None \<and> cellAt post index = Some me"
    using old_in old_ne assms(3) by (simp add: post_def cellAt_evicted cellAt_placed)
  have p4: "if checkTTTWinner post = Some me
            then gameState s2 = Finished \<and> winner s2 = Some Player
            else gameState s2 = gameState s \<and> gameEndCalls s2 = gameEndCalls s"
    using player_decay_fire(4,5) [of "tttBoard s" oldest index me e "playerMoves s"
        "opponentSymbolOf (side s) (role e)" "opponentMoves s"
        "s\<lparr>fadingCell := Some oldest, timers := timers s\<rparr>"]
    by (simp add: s2 post_def)
  define aiMove where "aiMove = pick r' (emptySpots cb)"
  define old' where "old' = hd om"
  define post' where "post' = cb[old' := None, aiMove := Some ''O'']"
  define a1 where "a1 = fireTimer e r' (TTTAIThink cb om) a"
  define a2 where "a2 = handleEvent e (Fire (length (timers a)) r'') a1"
  have a1: "a1 = a\<lparr>fadingCell := Some old',
      timers := timers a @ [(400, TTTAIDecay cb old' aiMove om)]\<rparr>"
    unfolding a1_def old'_def aiMove_def using assms(9,10)
    by (simp add: fireTimer_def ai_decay_think)
  have a2: "a2 = fireTTTAIDecay e cb old' aiMove om (a\<lparr>fadingCell := Some old', timers := timers a\<rparr>)"
    unfolding a2_def a1 by (simp add: fire_last) (simp add: fireTimer_def)
  have ai_in: "aiMove < length cb" and ai_empty: "cb ! aiMove = None"
    using pick_in [OF assms(9), of r'] by (simp_all add: aiMove_def emptySpots_iff)
  have old'_in: "old' < length cb" and old'_ne: "old' \<noteq> aiMove"
    using assms(11) ai_empty ai_in by (auto simp add: old'_def cellAt_def split: if_splits)
  have q1: "tttBoard a1 = tttBoard a \<and> fadingCell a1 = Some old'
             \<and> gameState a1 = gameState a \<and> gameEndCalls a1 = gameEndCalls a
             \<and> map fst (drop (length (timers a)) (timers a1)) = [400]"
    by (simp add: a1)
  have q2: "tttBoard a2 = post' \<and> fadingCell a2 = None"
    by (simp add: a2 post'_def ai_decay_fire)
  have q3: "cellAt post' old' = None \<and> cellAt post' aiMove = Some ''O''"
    using old'_in old'_ne ai_in by (simp add: post'_def cellAt_evicted cellAt_placed)
  have q4: "if checkTTTWinner post' = Some ''O''
            then gameState a2 = Finished \<and> winner a2 = Some Opponent
            else gameState a2 = gameState a \<and> gameEndCalls a2 = gameEndCalls a"
    using ai_decay_fire(4,5) [of cb old' aiMove e om
        "a\<lparr>fadingCell := Some old', timers := timers a\<rparr>"]
    by (simp add: a2 post'_def)
  show ?thesis
    unfolding Let_def
    using p1 p2 p3 p4 q1 q2 q3 q4
    unfolding s1_def s2_def post_def oldest_def me_def a1_def a2_def post'_def old'_def aiMove_def
    by blast
qed

text \<open>
  X holds 0, 1, 3 and plays 6. With cell 0 still on the board 0, 3, 6 would be a line;
  cell 0 is evicted first, no line is found and the game goes on. The machine, holding
  2, 4, 5, then plays 7 and loses 2.
\<close>

lemma threeEach_values:
  "tttBoard threeEach = [Some ''X'', Some ''X'', Some ''O'', Some ''X'', Some ''O'', Some ''O'',
                         None, None, None]
   \<and> playerMoves threeEach = [0, 1, 3] \<and> opponentMoves threeEach = [2, 4, 5]
   \<and> timers threeEach = [] \<and> gameState threeEach = Playing"
  by code_simp

theorem C2_oldest_evicted_before_win_check_witness:
  "playerMoves threeEach = [0, 1, 3]
   \<and> checkTTTWinner ((tttBoard threeEach)[6 := Some ''X'']) = Some ''X''
   \<and> fadingCell (handleTTTCellClick envLocal 6 threeEach) = Some 0
   \<and> tttBoard (handleTTTCellClick envLocal 6 threeEach) = tttBoard threeEach
   \<and> tttBoard (handleEvent envLocal (Fire 0 0) (handleTTTCellClick envLocal 6 threeEach))
        = boardAfterDecay
   \<and> gameState (handleEvent envLocal (Fire 0 0) (handleTTTCellClick envLocal 6 threeEach))
        = Playing
   \<and> fadingCell (fireTimer envLocal 1 (TTTAIThink boardAfterDecay [2, 4, 5]) afterDecay) = Some 2
   \<and> tttBoard (handleEvent envLocal (Fire (length (timers afterDecay)) 0)
                  (fireTimer envLocal 1 (TTTAIThink boardAfterDecay [2, 4, 5]) afterDecay))
        = [None, Some ''X'', None, Some ''X'', Some ''O'', Some ''O'', Some ''X'', Some ''O'', None]"
proof -
  have h1: "opponentType envLocal = OppAI" by (simp add: envLocal_def)
  have h2: "started threeEach" by code_simp
  have h3: "6 < length (tttBoard threeEach)" by code_simp
  have h4: "\<not> truthy (cellAt (tttBoard threeEach) 6)" by code_simp
  have h5: "tttCurrentPlayer threeEach = playerSymbolOf (side threeEach) (role envLocal)"
    by code_simp
  have h6: "fadingCell threeEach = None" by code_simp
  have h7: "3 \<le> length (playerMoves threeEach)" by code_simp
  have h8: "truthy (cellAt (tttBoard threeEach) (hd (playerMoves threeEach)))" by code_simp
  have h9: "emptySpots boardAfterDecay \<noteq> []" by code_simp
  have h10: "3 \<le> length [2, 4, 5 :: nat]" by simp
  have h11: "cellAt boardAfterDecay (hd [2, 4, 5]) \<noteq> None" by code_simp
  note inst = C2_oldest_evicted_before_win_check
     [OF h1 h2 h3 h4 h5 h6 h7 h8 h9 h10 h11, of 0 1 afterDecay 0, unfolded Let_def]
  have c1: "playerSymbolOf (side threeEach) (role envLocal) = ''X''" by code_simp
  have c2: "hd (playerMoves threeEach) = 0" by code_simp
  have c3: "(tttBoard threeEach)[0 := None, 6 := Some ''X''] = boardAfterDecay" by code_simp
  have c4: "checkTTTWinner boardAfterDecay \<noteq> Some ''X''" by code_simp
  have c5: "timers threeEach = [] \<and> gameState threeEach = Playing
            \<and> playerMoves threeEach = [0, 1, 3]" by code_simp
  have c6: "checkTTTWinner ((tttBoard threeEach)[6 := Some ''X'']) = Some ''X''" by code_simp
  have c7: "pick 1 (emptySpots boardAfterDecay) = 7" by code_simp
  have c8: "boardAfterDecay[2 := None, 7 := Some ''O'']
     = [None, Some ''X'', None, Some ''X'', Some ''O'', Some ''O'', Some ''X'', Some ''O'', None]"
    by code_simp
  show ?thesis
    using inst c4 c5 c6 unfolding c1 c2 c3 c7 by (simp add: c8)
qed

section \<open>Connect Four: a full board without a line\<close>

lemma fire_at:
  "k < length (timers s) \<Longrightarrow>
   handleEvent e (Fire k r) s
     = fireTimer e r (snd (timers s ! k)) (s\<lparr>timers := take k (timers s) @ drop (Suc k) (timers s)\<rparr>)"
  by (simp add: handleEvent_def)

lemma fireC4Reset_fields:
  "c4Board (fireC4Reset s) = replicate 42 None"
  "c4RoundCount (fireC4Reset s) = c4RoundCount s + 1"
  "c4CurrentPlayer (fireC4Reset s) = ''red''"
  "turnTime (fireC4Reset s) = 30"
  "gameState (fireC4Reset s) = gameState s"
  "winner (fireC4Reset s) = winner s"
  "gameEndCalls (fireC4Reset s) = gameEndCalls s"
  by (simp_all add: fireC4Reset_def resetTurnTimer_def)

lemma player_drop_full:
  assumes "boardFull (b[row * 7 + col := Some pc])"
    and "checkC4Winner (b[row * 7 + col := Some pc]) = None"
  shows "fireC4PlayerDrop e b row col pc oc s
     = s\<lparr>c4Board := b[row * 7 + col := Some pc], c4DroppingToken := None,
          timers := timers s @ [(2000, C4Reset)]\<rparr>"
  using assms by (simp add: fireC4PlayerDrop_def Let_def schedule_def)

lemma ai_drop_full:
  assumes "boardFull (b[row * 7 + col := Some ''yellow''])"
    and "checkC4Winner (b[row * 7 + col := Some ''yellow'']) = None"
  shows "fireC4AIDrop e b row col s
     = s\<lparr>c4Board := b[row * 7 + col := Some ''yellow''], c4DroppingToken := None,
          timers := timers s @ [(2000, C4Reset)]\<rparr>"
  using assms by (simp add: fireC4AIDrop_def Let_def schedule_def)

lemma restart_after_full:
  assumes "k < length (timers s)"
    and "fireTimer e r (snd (timers s ! k))
           (s\<lparr>timers := take k (timers s) @ drop (Suc k) (timers s)\<rparr>)
         = s\<lparr>c4Board := full, c4DroppingToken := None,
              timers := take k (timers s) @ drop (Suc k) (timers s) @ [(2000, C4Reset)]\<rparr>"
  shows "let s1 = handleEvent e (Fire k r) s;
             s2 = handleEvent e (Fire (length (timers s) - 1) r') s1
         in c4Board s1 = full
            \<and> gameState s1 = gameState s \<and> winner s1 = winner s
            \<and> gameEndCalls s1 = gameEndCalls s \<and> c4RoundCount s1 = c4RoundCount s
            \<and> timers s1 = take k (timers s) @ drop (Suc k) (timers s) @ [(2000, C4Reset)]
            \<and> c4Board s2 = replicate 42 None
            \<and> c4RoundCount s2 = c4RoundCount s + 1
            \<and> c4CurrentPlayer s2 = ''red''
            \<and> gameState s2 = gameState s \<and> winner s2 = winner s
            \<and> gameEndCalls s2 = gameEndCalls s"
proof -
  define rest where "rest = take k (timers s) @ drop (Suc k) (timers s)"
  define s1 where "s1 = handleEvent e (Fire k r) s"
  define s2 where "s2 = handleEvent e (Fire (length (timers s) - 1) r') s1"
  have len: "length rest = length (timers s) - 1"
    using assms(1) by (simp add: rest_def)
  have s1: "s1 = s\<lparr>c4Board := full, c4DroppingToken := None,
                    timers := rest @ [(2000, C4Reset)]\<rparr>"
    unfolding s1_def fire_at [OF assms(1)] using assms(2) by (simp add: rest_def)
  have s2: "s2 = fireC4Reset (s1\<lparr>timers := rest\<rparr>)"
    unfolding s2_def len [symmetric] by (simp add: s1 fire_last fireTimer_def)
  have "c4Board s1 = full
            \<and> gameState s1 = gameState s \<and> winner s1 = winner s
            \<and> gameEndCalls s1 = gameEndCalls s \<and> c4RoundCount s1 = c4RoundCount s
            \<and> timers s1 = take k (timers s) @ drop (Suc k) (timers s) @ [(2000, C4Reset)]"
    by (simp add: s1 rest_def)
  moreover have "c4Board s2 = replicate 42 None
            \<and> c4RoundCount s2 = c4RoundCount s + 1
            \<and> c4CurrentPlayer s2 = ''red''
            \<and> gameState s2 = gameState s \<and> winner s2 = winner s
            \<and> gameEndCalls s2 = gameEndCalls s"
    by (simp add: s2 fireC4Reset_fields) (simp add: s1)
  ultimately show ?thesis
    unfolding Let_def s1_def s2_def by blast
qed

text \<open>
  C5. Local Connect Four: the pending drop of the player (first part) or of the machine
  (second part) fills the last free cell and leaves no four in a row. When the drop runs
  the match does not end: phase, winner and the calls of \<open>handleGameEnd\<close> are as before,
  the round counter too, and the restart is scheduled at 2000 ms. When the restart runs
  the board is 42 empty cells, the round counter is one more, and red is to move.
\<close>

theorem C5_full_board_restarts_round:
  assumes "k < length (timers s)"
    and "snd (timers s ! k) = C4PlayerDrop b row col pc oc"
    and "boardFull (b[row * 7 + col := Some pc])"
    and "checkC4Winner (b[row * 7 + col := Some pc]) = None"
    and "j < length (timers a)"
    and "snd (timers a ! j) = C4AIDrop c arow acol"
    and "boardFull (c[arow * 7 + acol := Some ''yellow''])"
    and "checkC4Winner (c[arow * 7 + acol := Some ''yellow'']) = None"
  shows "(let s1 = handleEvent e (Fire k r) s;
              s2 = handleEvent e (Fire (length (timers s) - 1) r') s1
          in c4Board s1 = b[row * 7 + col := Some pc]
             \<and> gameState s1 = gameState s \<and> winner s1 = winner s
             \<and> gameEndCalls s1 = gameEndCalls s \<and> c4RoundCount s1 = c4RoundCount s
             \<and> timers s1 = take k (timers s) @ drop (Suc k) (timers s) @ [(2000, C4Reset)]
             \<and> c4Board s2 = replicate 42 None
             \<and> c4RoundCount s2 = c4RoundCount s + 1
             \<and> c4CurrentPlayer s2 = ''red''
             \<and> gameState s2 = gameState s \<and> winner s2 = winner s
             \<and> gameEndCalls s2 = gameEndCalls s)
       \<and> (let a1 = handleEvent e (Fire j r) a;
               a2 = handleEvent e (Fire (length (timers a) - 1) r') a1
           in c4Board a1 = c[arow * 7 + acol := Some ''yellow'']
              \<and> gameState a1 = gameState a \<and> winner a1 = winner a
              \<and> gameEndCalls a1 = gameEndCalls a \<and> c4RoundCount a1 = c4RoundCount a
              \<and> timers a1 = take j (timers a) @ drop (Suc j) (timers a) @ [(2000, C4Reset)]
              \<and> c4Board a2 = replicate 42 None
              \<and> c4RoundCount a2 = c4RoundCount a + 1
              \<and> c4CurrentPlayer a2 = ''red''
              \<and> gameState a2 = gameState a \<and> winner a2 = winner a
              \<and> gameEndCalls a2 = gameEndCalls a)"
proof (rule conjI)
  show "let s1 = handleEvent e (Fire k r) s;
              s2 = handleEvent e (Fire (length (timers s) - 1) r') s1
          in c4Board s1 = b[row * 7 + col := Some pc]
             \<and> gameState s1 = gameState s \<and> winner s1 = winner s
             \<and> gameEndCalls s1 = gameEndCalls s \<and> c4RoundCount s1 = c4RoundCount s
             \<and> timers s1 = take k (timers s) @ drop (Suc k) (timers s) @ [(2000, C4Reset)]
             \<and> c4Board s2 = replicate 42 None
             \<and> c4RoundCount s2 = c4RoundCount s + 1
             \<and> c4CurrentPlayer s2 = ''red''
             \<and> gameState s2 = gameState s \<and> winner s2 = winner s
             \<and> gameEndCalls s2 = gameEndCalls s"
    using assms(2,3,4)
    by (intro restart_after_full [OF assms(1)]) (simp add: fireTimer_def player_drop_full)
  show "let a1 = handleEvent e (Fire j r) a;
               a2 = handleEvent e (Fire (length (timers a) - 1) r') a1
           in c4Board a1 = c[arow * 7 + acol := Some ''yellow'']
              \<and> gameState a1 = gameState a \<and> winner a1 = winner a
              \<and> gameEndCalls a1 = gameEndCalls a \<and> c4RoundCount a1 = c4RoundCount a
              \<and> timers a1 = take j (timers a) @ drop (Suc j) (timers a) @ [(2000, C4Reset)]
              \<and> c4Board a2 = replicate 42 None
              \<and> c4RoundCount a2 = c4RoundCount a + 1
              \<and> c4CurrentPlayer a2 = ''red''
              \<and> gameState a2 = gameState a \<and> winner a2 = winner a
              \<and> gameEndCalls a2 = gameEndCalls a"
    using assms(6,7,8)
    by (intro restart_after_full [OF assms(5)]) (simp add: fireTimer_def ai_drop_full)
qed

text \<open>
  The drawn round played from the initial state, up to the machine's last drop; and the
  player's drop into the last free cell of the same board.
\<close>

lemma lastDropPending_values:
  "c4Board lastDropPending = almostFull
   \<and> timers lastDropPending = [(500, C4AIDrop almostFull 0 6)]
   \<and> gameState lastDropPending = Playing \<and> c4RoundCount lastDropPending = 1
   \<and> c4DroppingToken lastDropPending = Some (6, 0)"
  by code_simp

lemma redLastPending_values:
  "timers redLastPending = [(500, C4PlayerDrop redToFill 0 0 ''red'' ''yellow'')]
   \<and> gameState redLastPending = Playing \<and> c4RoundCount redLastPending = 1
   \<and> gameEndCalls redLastPending = []"
  by code_simp

lemma drawn_boards:
  "boardFull (redToFill[0 * 7 + 0 := Some ''red''])
   \<and> checkC4Winner (redToFill[0 * 7 + 0 := Some ''red'']) = None
   \<and> boardFull (almostFull[0 * 7 + 6 := Some ''yellow''])
   \<and> checkC4Winner (almostFull[0 * 7 + 6 := Some ''yellow'']) = None"
  by code_simp

theorem C5_full_board_restarts_round_witness:
  "gameState lastDropPending = Playing \<and> c4RoundCount lastDropPending = 1
   \<and> c4Board lastDropPending = almostFull
   \<and> timers lastDropPending = [(500, C4AIDrop almostFull 0 6)]
   \<and> boardFull (c4Board (handleEvent envC4 (Fire 0 0) lastDropPending))
   \<and> checkC4Winner (c4Board (handleEvent envC4 (Fire 0 0) lastDropPending)) = None
   \<and> gameState (handleEvent envC4 (Fire 0 0) lastDropPending) = Playing
   \<and> timers (handleEvent envC4 (Fire 0 0) lastDropPending) = [(2000, C4Reset)]
   \<and> gameState (handleEvent envC4 (Fire 0 0) (handleEvent envC4 (Fire 0 0) lastDropPending))
        = Playing
   \<and> c4Board (handleEvent envC4 (Fire 0 0) (handleEvent envC4 (Fire 0 0) lastDropPending))
        = replicate 42 None
   \<and> c4RoundCount (handleEvent envC4 (Fire 0 0) (handleEvent envC4 (Fire 0 0) lastDropPending))
        = 2
   \<and> c4CurrentPlayer
        (handleEvent envC4 (Fire 0 0) (handleEvent envC4 (Fire 0 0) lastDropPending)) = ''red''
   \<and> c4Board (handleEvent envC4 (Fire 0 0) (handleEvent envC4 (Fire 0 0) redLastPending))
        = replicate 42 None
   \<and> c4RoundCount (handleEvent envC4 (Fire 0 0) (handleEvent envC4 (Fire 0 0) redLastPending)) = 2
   \<and> gameState (handleEvent envC4 (Fire 0 0) (handleEvent envC4 (Fire 0 0) redLastPending))
        = Playing"
proof -
  note v = lastDropPending_values
  note w = redLastPending_values
  have k: "0 < length (timers redLastPending)" using w by simp
  have tk: "snd (timers redLastPending ! 0) = C4PlayerDrop redToFill 0 0 ''red'' ''yellow''"
    using w by simp
  have j: "0 < length (timers lastDropPending)" using v by simp
  have tj: "snd (timers lastDropPending ! 0) = C4AIDrop almostFull 0 6"
    using v by simp
  note d = drawn_boards
  note inst = C5_full_board_restarts_round
    [OF k tk d [THEN conjunct1] d [THEN conjunct2, THEN conjunct1] j tj
        d [THEN conjunct2, THEN conjunct2, THEN conjunct1]
        d [THEN conjunct2, THEN conjunct2, THEN conjunct2], of envC4 0 0, unfolded Let_def]
  show ?thesis
    using inst v w d by simp
qed

section \<open>Multiplayer: the board comes from the server only\<close>

lemma handleGameEnd_keeps:
  "tttBoard (handleGameEnd e w s) = tttBoard s"
  "c4Board (handleGameEnd e w s) = c4Board s"
  "timers (handleGameEnd e w s) = timers s"
  "started (handleGameEnd e w s) = started s"
  "gameClient (handleGameEnd e w s) = gameClient s"
  "tttCurrentPlayer (handleGameEnd e w s) = tttCurrentPlayer s"
  "c4CurrentPlayer (handleGameEnd e w s) = c4CurrentPlayer s"
  "sent (handleGameEnd e w s) = sent s"
  by (simp_all add: handleGameEnd_def Let_def)

lemma showReveal_keeps:
  "tttBoard (showReveal m d s) = tttBoard s"
  "c4Board (showReveal m d s) = c4Board s"
  "timers (showReveal m d s) = timers s @ [(800, RPSRevealResult
      (if revealWinner d = None then RDraw else if revealWinner d = m then RWin else RLose))]"
  "started (showReveal m d s) = started s"
  "gameClient (showReveal m d s) = gameClient s"
  "tttCurrentPlayer (showReveal m d s) = tttCurrentPlayer s"
  "c4CurrentPlayer (showReveal m d s) = c4CurrentPlayer s"
  "sent (showReveal m d s) = sent s"
  by (simp_all add: showReveal_def Let_def schedule_def)

lemma inv_showReveal: "multiplayerInv s \<Longrightarrow> multiplayerInv (showReveal m d s)"
  by (simp add: multiplayerInv_def showReveal_keeps revealTimer_def)

lemma inv_handleGameEnd: "multiplayerInv s \<Longrightarrow> multiplayerInv (handleGameEnd e w s)"
  by (simp add: multiplayerInv_def handleGameEnd_keeps)

lemma same_handleGameEnd: "sameBoards s (handleGameEnd e w s)"
  by (simp add: sameBoards_def handleGameEnd_keeps)

lemma commitEffects_keeps:
  "tttBoard (commitEffects e s) = tttBoard s"
  "c4Board (commitEffects e s) = c4Board s"
  "tttCurrentPlayer (commitEffects e s) = tttCurrentPlayer s"
  "c4CurrentPlayer (commitEffects e s) = c4CurrentPlayer s"
  "sent (commitEffects e s) = sent s"
  by (simp_all add: commitEffects_def resolvePendingWinner_def replayPendingReveal_def
        handleGameEnd_keeps showReveal_keeps split: option.splits)

lemma inv_commitEffects: "multiplayerInv s \<Longrightarrow> multiplayerInv (commitEffects e s)"
  by (simp add: commitEffects_def resolvePendingWinner_def replayPendingReveal_def
        multiplayerInv_def handleGameEnd_keeps showReveal_keeps revealTimer_def
        split: option.splits)

lemma tick_keeps:
  "sameBoards s (tick e s)" "multiplayerInv s \<Longrightarrow> multiplayerInv (tick e s)"
  by (simp_all add: tick_def onTimeout_def sameBoards_def multiplayerInv_def handleGameEnd_keeps)

lemma clickTTT_multi:
  assumes "opponentType e = OppPlayer"
  shows "sameBoards s (clickTTTCell e i s)"
    and "multiplayerInv s \<Longrightarrow> multiplayerInv (clickTTTCell e i s)"
  using assms
  by (auto simp add: clickTTTCell_def handleTTTCellClick_def Let_def sameBoards_def
        multiplayerInv_def)

lemma clickC4_multi:
  assumes "opponentType e = OppPlayer"
  shows "sameBoards s (clickC4Column e c s)"
    and "multiplayerInv s \<Longrightarrow> multiplayerInv (clickC4Column e c s)"
  using assms
  by (auto simp add: clickC4Column_def handleC4ColumnClick_def Let_def sameBoards_def
        multiplayerInv_def split: option.splits)

lemma clickRPS_multi:
  assumes "opponentType e = OppPlayer"
  shows "sameBoards s (clickRPSChoice e c s)"
    and "multiplayerInv s \<Longrightarrow> multiplayerInv (clickRPSChoice e c s)"
  using assms
  by (auto simp add: clickRPSChoice_def handleRPSChoice_def Let_def sameBoards_def
        multiplayerInv_def)

lemma forfeit_keeps:
  "sameBoards s (handleForfeit e s)" "multiplayerInv s \<Longrightarrow> multiplayerInv (handleForfeit e s)"
  by (auto simp add: handleForfeit_def sameBoards_def multiplayerInv_def handleGameEnd_keeps)

lemma onOpponentMove_keeps:
  "sameBoards s (onOpponentMove e el s)"
  "multiplayerInv s \<Longrightarrow> multiplayerInv (onOpponentMove e el s)"
  by (simp_all add: onOpponentMove_def syncTurnTime_def sameBoards_def multiplayerInv_def
        split: option.splits)

lemma onGameEnd_keeps:
  "sameBoards s (onGameEnd e d s)" "multiplayerInv s \<Longrightarrow> multiplayerInv (onGameEnd e d s)"
  by (simp_all add: onGameEnd_def sameBoards_def multiplayerInv_def handleGameEnd_keeps)

lemma onStart_keeps:
  "sameBoards s (onStart d s)"
  "gameClient s \<Longrightarrow> multiplayerInv s \<Longrightarrow> multiplayerInv (onStart d s)"
  by (simp_all add: onStart_def Let_def syncTurnTime_def resetTurnTimer_def sameBoards_def
        multiplayerInv_def split: option.splits)

lemma onState_inv:
  "gameClient s \<Longrightarrow> multiplayerInv s \<Longrightarrow> multiplayerInv (onState e d s)"
  by (simp add: onState_def Let_def syncTurnTime_def multiplayerInv_def split: option.splits)

lemma onRpsReveal_keeps:
  "sameBoards s (onRpsReveal e d s)"
  "multiplayerInv s \<Longrightarrow> multiplayerInv (onRpsReveal e d s)"
  by (simp_all add: onRpsReveal_def sameBoards_def multiplayerInv_def showReveal_keeps
        revealTimer_def)

lemma fire_reveal_keeps:
  assumes "revealTimer t"
  shows "sameBoards s (fireTimer e r t s)"
    and "multiplayerInv s \<Longrightarrow> multiplayerInv (fireTimer e r t s)"
  using assms
  by (cases t; simp add: revealTimer_def fireTimer_def fireRPSRevealResult_def nextRound_def
        resetTurnTimer_def schedule_def Let_def sameBoards_def multiplayerInv_def)+

lemma inv_pop:
  "multiplayerInv s \<Longrightarrow>
     multiplayerInv (s\<lparr>timers := take k (timers s) @ drop (Suc k) (timers s)\<rparr>)"
  by (auto simp add: multiplayerInv_def list_all_iff dest: in_set_takeD in_set_dropD)

lemma inv_nth: "multiplayerInv s \<Longrightarrow> k < length (timers s) \<Longrightarrow> revealTimer (snd (timers s ! k))"
  by (simp add: multiplayerInv_def list_all_length)

lemma handleEvent_multi:
  assumes "opponentType e = OppPlayer" and "multiplayerInv s"
  shows "multiplayerInv (handleEvent e ev s)"
    and "\<not> isStateEvent ev \<Longrightarrow> sameBoards s (handleEvent e ev s)"
proof -
  have refl: "sameBoards s s" by (simp add: sameBoards_def)
  show "multiplayerInv (handleEvent e ev s)"
  proof (cases ev)
    case (Fire k r)
    show ?thesis
    proof (cases "k < length (timers s)")
      case True
      have "multiplayerInv (fireTimer e r (snd (timers s ! k))
              (s\<lparr>timers := take k (timers s) @ drop (Suc k) (timers s)\<rparr>))"
        by (rule fire_reveal_keeps(2) [OF inv_nth [OF assms(2) True] inv_pop [OF assms(2)]])
      then show ?thesis using True by (simp add: Fire handleEvent_def)
    next
      case False
      then show ?thesis using assms(2) by (simp add: Fire handleEvent_def)
    qed
  qed (use assms in \<open>simp_all add: handleEvent_def tick_keeps clickTTT_multi clickC4_multi
        clickRPS_multi forfeit_keeps onOpponentMove_keeps onGameEnd_keeps onStart_keeps
        onState_inv onRpsReveal_keeps\<close>)
  show "sameBoards s (handleEvent e ev s)" if "\<not> isStateEvent ev"
  proof (cases ev)
    case (Fire k r)
    show ?thesis
    proof (cases "k < length (timers s)")
      case True
      from fire_reveal_keeps(1) [OF inv_nth [OF assms(2) True],
             of "s\<lparr>timers := take k (timers s) @ drop (Suc k) (timers s)\<rparr>" e r]
      show ?thesis using True by (simp add: Fire handleEvent_def sameBoards_def)
    next
      case False
      then show ?thesis by (simp add: Fire handleEvent_def refl)
    qed
  qed (use assms that in \<open>simp_all add: handleEvent_def isStateEvent_def refl tick_keeps
        clickTTT_multi clickC4_multi clickRPS_multi forfeit_keeps onOpponentMove_keeps
        onGameEnd_keeps onStart_keeps onRpsReveal_keeps\<close>)
qed

lemma step_multi:
  assumes "opponentType e = OppPlayer" and "multiplayerInv s"
  shows "multiplayerInv (step e ev s)"
    and "\<not> isStateEvent ev \<Longrightarrow> sameBoards s (step e ev s)"
  using handleEvent_multi [OF assms, of ev]
  by (simp_all add: step_def inv_commitEffects sameBoards_def commitEffects_keeps)

lemma inv_initial: "opponentType e = OppPlayer \<Longrightarrow> multiplayerInv (initialState e)"
  by (simp add: multiplayerInv_def initialState_def)

lemma inv_run:
  "opponentType e = OppPlayer \<Longrightarrow> multiplayerInv s \<Longrightarrow> multiplayerInv (run e evs s)"
  by (induction evs arbitrary: s) (simp_all add: step_multi)

lemma clickTTT_sends:
  assumes "opponentType e = OppPlayer" and "gameClient s"
    and "gameName e = ''Tic-Tac-Toe''" and "i < length (tttBoard s)"
    and "gameState s = Playing" and "started s" and "\<not> truthy (cellAt (tttBoard s) i)"
    and "tttCurrentPlayer s = playerSymbolOf (side s) (role e)" and "fadingCell s = None"
  shows "clickTTTCell e i s
     = s\<lparr>sent := sent s @ [SendMove i],
          tttCurrentPlayer := opponentSymbolOf (side s) (role e)\<rparr>"
  using assms
  by (simp add: clickTTTCell_def tttCellDisabled_def handleTTTCellClick_def Let_def)

lemma clickC4_sends:
  assumes "opponentType e = OppPlayer" and "gameClient s"
    and "gameName e = ''Connect Four''" and "col < 7"
    and "gameState s = Playing" and "started s" and "findRow (c4Board s) col \<noteq> None"
    and "c4CurrentPlayer s = playerColorOf (side s) (role e)" and "c4DroppingToken s = None"
  shows "clickC4Column e col s
     = s\<lparr>sent := sent s @ [SendMove col],
          c4CurrentPlayer := opponentColorOf (side s) (role e)\<rparr>"
  using assms
  by (auto simp add: clickC4Column_def c4ColumnDisabled_def handleC4ColumnClick_def Let_def)

lemma onState_overwrites:
  "gameName e = ''Tic-Tac-Toe'' \<Longrightarrow> tttBoard (onState e d s) = board d"
  "gameName e = ''Connect Four'' \<Longrightarrow> c4Board (onState e d s) = board d"
  by (simp_all add: onState_def Let_def syncTurnTime_def split: option.splits)

lemma opponent_is_other:
  "opponentSymbolOf sd rl \<noteq> playerSymbolOf sd rl"
  "opponentColorOf sd rl \<noteq> playerColorOf sd rl"
  by (simp_all add: opponentSymbolOf_def playerSymbolOf_def opponentColorOf_def
        playerColorOf_def)

text \<open>
  C6. A multiplayer session, in any state \<open>s\<close> reached from the initial one. A legal
  click on a cell (Tic-Tac-Toe) or on a column (Connect Four) leaves the board as it
  is, hands the move to the socket and gives the turn to the opponent. No event other
  than a \<^verbatim>\<open>state\<close> message changes either board. A \<^verbatim>\<open>state\<close> message replaces the
  board of the game being played by the board it carries.
\<close>

theorem C6_multiplayer_board_only_from_state:
  assumes "opponentType e = OppPlayer" and "s = run e evs (initialState e)"
  shows "(gameName e = ''Tic-Tac-Toe'' \<and> i < length (tttBoard s) \<and> gameState s = Playing
            \<and> started s \<and> \<not> truthy (cellAt (tttBoard s) i)
            \<and> tttCurrentPlayer s = playerSymbolOf (side s) (role e) \<and> fadingCell s = None
          \<longrightarrow> tttBoard (step e (ClickTTT i) s) = tttBoard s
              \<and> tttCurrentPlayer (step e (ClickTTT i) s) = opponentSymbolOf (side s) (role e)
              \<and> tttCurrentPlayer (step e (ClickTTT i) s) \<noteq> tttCurrentPlayer s
              \<and> sent (step e (ClickTTT i) s) = sent s @ [SendMove i])
       \<and> (gameName e = ''Connect Four'' \<and> col < 7 \<and> gameState s = Playing
            \<and> started s \<and> findRow (c4Board s) col \<noteq> None
            \<and> c4CurrentPlayer s = playerColorOf (side s) (role e) \<and> c4DroppingToken s = None
          \<longrightarrow> c4Board (step e (ClickC4 col) s) = c4Board s
              \<and> c4CurrentPlayer (step e (ClickC4 col) s) = opponentColorOf (side s) (role e)
              \<and> c4CurrentPlayer (step e (ClickC4 col) s) \<noteq> c4CurrentPlayer s
              \<and> sent (step e (ClickC4 col) s) = sent s @ [SendMove col])
       \<and> ((\<forall>d. ev \<noteq> WsState d)
          \<longrightarrow> tttBoard (step e ev s) = tttBoard s \<and> c4Board (step e ev s) = c4Board s)
       \<and> (gameClient s \<and> gameName e = ''Tic-Tac-Toe''
          \<longrightarrow> tttBoard (step e (WsState snap) s) = board snap)
       \<and> (gameClient s \<and> gameName e = ''Connect Four''
          \<longrightarrow> c4Board (step e (WsState snap) s) = board snap)"
proof -
  have inv: "multiplayerInv s"
    unfolding assms(2) by (rule inv_run [OF assms(1) inv_initial [OF assms(1)]])
  then have client: "started s \<Longrightarrow> gameClient s"
    by (simp add: multiplayerInv_def)
  have ttt: "tttBoard (step e (ClickTTT i) s) = tttBoard s
              \<and> tttCurrentPlayer (step e (ClickTTT i) s) = opponentSymbolOf (side s) (role e)
              \<and> tttCurrentPlayer (step e (ClickTTT i) s) \<noteq> tttCurrentPlayer s
              \<and> sent (step e (ClickTTT i) s) = sent s @ [SendMove i]"
    if "gameName e = ''Tic-Tac-Toe''" "i < length (tttBoard s)" "gameState s = Playing"
       "started s" "\<not> truthy (cellAt (tttBoard s) i)"
       "tttCurrentPlayer s = playerSymbolOf (side s) (role e)" "fadingCell s = None"
    using that opponent_is_other(1) [of "side s" "role e"]
    by (simp add: step_def handleEvent_def commitEffects_keeps
          clickTTT_sends [OF assms(1) client [OF that(4)] that])
  have c4: "c4Board (step e (ClickC4 col) s) = c4Board s
              \<and> c4CurrentPlayer (step e (ClickC4 col) s) = opponentColorOf (side s) (role e)
              \<and> c4CurrentPlayer (step e (ClickC4 col) s) \<noteq> c4CurrentPlayer s
              \<and> sent (step e (ClickC4 col) s) = sent s @ [SendMove col]"
    if "gameName e = ''Connect Four''" "col < 7" "gameState s = Playing"
       "started s" "findRow (c4Board s) col \<noteq> None"
       "c4CurrentPlayer s = playerColorOf (side s) (role e)" "c4DroppingToken s = None"
    using that opponent_is_other(2) [of "side s" "role e"]
    by (simp add: step_def handleEvent_def commitEffects_keeps
          clickC4_sends [OF assms(1) client [OF that(4)] that])
  have only: "tttBoard (step e ev s) = tttBoard s \<and> c4Board (step e ev s) = c4Board s"
    if "\<forall>d. ev \<noteq> WsState d"
  proof -
    have "\<not> isStateEvent ev"
      using that by (cases ev) (simp_all add: isStateEvent_def)
    from step_multi(2) [OF assms(1) inv this] show ?thesis
      by (simp add: sameBoards_def)
  qed
  have over: "gameClient s \<Longrightarrow> gameName e = ''Tic-Tac-Toe''
          \<Longrightarrow> tttBoard (step e (WsState snap) s) = board snap"
       "gameClient s \<Longrightarrow> gameName e = ''Connect Four''
          \<Longrightarrow> c4Board (step e (WsState snap) s) = board snap"
    by (simp_all add: step_def handleEvent_def commitEffects_keeps onState_overwrites)
  show ?thesis
    using ttt c4 only over by blast
qed

theorem C6_multiplayer_board_only_from_state_witness:
  "opponentType envMulti = OppPlayer \<and> opponentType envMultiC4 = OppPlayer
   \<and> tttBoard (step envMulti (ClickTTT 4) startedA) = replicate 9 None
   \<and> tttCurrentPlayer startedA = ''X''
   \<and> tttCurrentPlayer (step envMulti (ClickTTT 4) startedA) = ''O''
   \<and> sent (step envMulti (ClickTTT 4) startedA) = [SendMove 4]
   \<and> tttBoard (step envMulti Tick startedA) = tttBoard startedA
   \<and> tttBoard (step envMulti (WsState snapshotX4) startedA) = board snapshotX4
   \<and> c4Board (step envMultiC4 (ClickC4 3) startedA4) = replicate 42 None
   \<and> c4CurrentPlayer (step envMultiC4 (ClickC4 3) startedA4) = ''yellow''
   \<and> sent (step envMultiC4 (ClickC4 3) startedA4) = [SendMove 3]
   \<and> c4Board (step envMultiC4 (WsState snapshotX4) startedA4) = board snapshotX4"
proof -
  have m: "opponentType envMulti = OppPlayer" by (simp add: envMulti_def)
  have m4: "opponentType envMultiC4 = OppPlayer" by (simp add: envMultiC4_def envMulti_def)
  have g: "gameName envMulti = ''Tic-Tac-Toe''" by (simp add: envMulti_def)
  have g4: "gameName envMultiC4 = ''Connect Four''" by (simp add: envMultiC4_def)
  have tick: "\<forall>d. Tick \<noteq> WsState d" by simp
  note a = C6_multiplayer_board_only_from_state
     [OF m startedA_def, of 4 0 Tick snapshotX4]
  note b = C6_multiplayer_board_only_from_state
     [OF m4 startedA4_def, of 0 3 Tick snapshotX4]
  have ante: "gameName envMulti = ''Tic-Tac-Toe'' \<and> 4 < length (tttBoard startedA)
            \<and> gameState startedA = Playing
            \<and> started startedA \<and> \<not> truthy (cellAt (tttBoard startedA) 4)
            \<and> tttCurrentPlayer startedA = playerSymbolOf (side startedA) (role envMulti)
            \<and> fadingCell startedA = None"
    by code_simp
  have ante4: "gameName envMultiC4 = ''Connect Four'' \<and> (3::nat) < 7
            \<and> gameState startedA4 = Playing
            \<and> started startedA4 \<and> findRow (c4Board startedA4) 3 \<noteq> None
            \<and> c4CurrentPlayer startedA4 = playerColorOf (side startedA4) (role envMultiC4)
            \<and> c4DroppingToken startedA4 = None"
    by code_simp
  have cl: "gameClient startedA" "gameClient startedA4" by code_simp+
  have v: "tttBoard startedA = replicate 9 None" "tttCurrentPlayer startedA = ''X''"
    "opponentSymbolOf (side startedA) (role envMulti) = ''O''" "sent startedA = []"
    by code_simp+
  have v4: "c4Board startedA4 = replicate 42 None"
    "opponentColorOf (side startedA4) (role envMultiC4) = ''yellow''" "sent startedA4 = []"
    by code_simp+
  have click: "tttBoard (step envMulti (ClickTTT 4) startedA) = tttBoard startedA
      \<and> tttCurrentPlayer (step envMulti (ClickTTT 4) startedA)
          = opponentSymbolOf (side startedA) (role envMulti)
      \<and> sent (step envMulti (ClickTTT 4) startedA) = sent startedA @ [SendMove 4]"
    using a ante by blast
  have click4: "c4Board (step envMultiC4 (ClickC4 3) startedA4) = c4Board startedA4
      \<and> c4CurrentPlayer (step envMultiC4 (ClickC4 3) startedA4)
          = opponentColorOf (side startedA4) (role envMultiC4)
      \<and> sent (step envMultiC4 (ClickC4 3) startedA4) = sent startedA4 @ [SendMove 3]"
    using b ante4 by blast
  have other: "tttBoard (step envMulti Tick startedA) = tttBoard startedA"
    using a tick by blast
  have over: "tttBoard (step envMulti (WsState snapshotX4) startedA) = board snapshotX4"
    using a cl g by blast
  have over4: "c4Board (step envMultiC4 (WsState snapshotX4) startedA4) = board snapshotX4"
    using b cl g4 by blast
  show ?thesis
    using click click4 other over over4 m m4 unfolding v v4 by simp
qed

section \<open>Tic-Tac-Toe: the move histories\<close>

lemma digits_small: "n < 10 \<Longrightarrow> digits n = [n]"
  by (simp add: digits.simps)

lemma sorted_cellsOf: "sorted (cellsOf mark b)"
  by (simp add: cellsOf_def sorted_wrt_filter)

lemma cellsOf_bound: "i \<in> set (cellsOf mark b) \<Longrightarrow> i < length b"
  by (simp add: cellsOf_def)

lemma jsSort_small:
  assumes "sorted xs" and "\<forall>x \<in> set xs. x < 10"
  shows "jsSort xs = xs"
proof -
  have "map digits xs = map (\<lambda>n. [n]) xs"
    using assms(2) by (intro map_cong) (simp_all add: digits_small)
  moreover have "sorted (map (\<lambda>n. [n]) xs)"
    using assms(1) by (induction xs) (auto simp add: list_le_def list_less_def)
  ultimately have "sorted (map digits xs)" by (simp only:)
  then show ?thesis
    unfolding jsSort_def by (rule sort_key_id_if_sorted)
qed

lemma onState_histories:
  assumes "gameName e = ''Tic-Tac-Toe''"
  shows "playerMoves (onState e d s)
           = jsSort (cellsOf (playerSymbolOf (clientSide e) (role e)) (board d))"
    and "opponentMoves (onState e d s)
           = jsSort (cellsOf (opponentSymbolOf (clientSide e) (role e)) (board d))"
  using assms by (simp_all add: onState_def Let_def syncTurnTime_def split: option.splits)

lemma jsSort_cellsOf: "length b \<le> 10 \<Longrightarrow> jsSort (cellsOf mark b) = cellsOf mark b"
  by (rule jsSort_small [OF sorted_cellsOf]) (auto dest: cellsOf_bound)

lemma player_place_click:
  assumes "opponentType e = OppAI" and "started s"
    and "\<not> truthy (cellAt (tttBoard s) index)"
    and "tttCurrentPlayer s = playerSymbolOf (side s) (role e)"
    and "fadingCell s = None" and "length (playerMoves s) < 3"
  shows "playerMoves (handleTTTCellClick e index s) = playerMoves s @ [index]"
  using assms
  by (simp add: handleTTTCellClick_def Let_def schedule_def handleGameEnd_def resetTurnTimer_def)

lemma ai_place_think:
  assumes "emptySpots cb \<noteq> []" and "length om < 3"
  shows "opponentMoves (fireTTTAIThink e r cb om s) = om @ [pick r (emptySpots cb)]"
  using assms
  by (simp add: fireTTTAIThink_def Let_def handleGameEnd_def resetTurnTimer_def)

text \<open>
  C9 does not hold as stated: after a state sync a history is in cell order, not in
  placement order. The server shows X on 5, then X on 5 and 2: the history becomes [2, 5],
  with the newer cell at its head, where placement order is [5, 2].
\<close>

theorem C9_sync_history_in_cell_order:
  "playerMoves (run envMulti [WsState snapshot5] (initialState envMulti)) = [5]
   \<and> playerMoves (run envMulti [WsState snapshot5, WsState snapshot25] (initialState envMulti))
        = [2, 5]
   \<and> playerMoves (run envMulti [WsState snapshot5, WsState snapshot25] (initialState envMulti))
        \<noteq> playerMoves (run envMulti [WsState snapshot5] (initialState envMulti)) @ [2]"
  by code_simp

text \<open>
  C9 as amended. In a local game a placement by the player (first part) or by the machine
  (second part) leaves the mover's history with at most three cells, in placement order:
  the cells it had, without the head when there were three already, followed by the
  new cell; with three cells held the head is the cell set fading. After a state sync
  (third part, boards of at most ten cells) each history is the list of the cells that
  hold the symbol on the received board, in ascending order of the cell index.
\<close>

theorem C9_histories_after_update:
  assumes "opponentType e = OppAI" and "started s"
    and "\<not> truthy (cellAt (tttBoard s) index)"
    and "tttCurrentPlayer s = playerSymbolOf (side s) (role e)"
    and "fadingCell s = None" and "length (playerMoves s) \<le> 3"
    and "emptySpots cb \<noteq> []" and "length om \<le> 3"
    and "gameName m = ''Tic-Tac-Toe''" and "length (board d) \<le> 10"
  shows "(let s1 = handleTTTCellClick e index s;
              s2 = handleEvent e (Fire (length (timers s)) r) s1
          in if length (playerMoves s) < 3
             then playerMoves s1 = playerMoves s @ [index] \<and> length (playerMoves s1) \<le> 3
             else playerMoves s1 = playerMoves s \<and> fadingCell s1 = Some (hd (playerMoves s))
                  \<and> playerMoves s2 = tl (playerMoves s) @ [index]
                  \<and> length (playerMoves s2) = 3)
       \<and> (let a1 = fireTimer e r' (TTTAIThink cb om) a;
               a2 = handleEvent e (Fire (length (timers a)) r'') a1
           in if length om < 3
              then opponentMoves a1 = om @ [pick r' (emptySpots cb)]
                   \<and> length (opponentMoves a1) \<le> 3
              else opponentMoves a1 = opponentMoves a \<and> fadingCell a1 = Some (hd om)
                   \<and> opponentMoves a2 = tl om @ [pick r' (emptySpots cb)]
                   \<and> length (opponentMoves a2) = 3)
       \<and> playerMoves (onState m d t)
            = cellsOf (playerSymbolOf (clientSide m) (role m)) (board d)
       \<and> opponentMoves (onState m d t)
            = cellsOf (opponentSymbolOf (clientSide m) (role m)) (board d)
       \<and> sorted (playerMoves (onState m d t)) \<and> sorted (opponentMoves (onState m d t))"
proof -
  have player: "let s1 = handleTTTCellClick e index s;
              s2 = handleEvent e (Fire (length (timers s)) r) s1
          in if length (playerMoves s) < 3
             then playerMoves s1 = playerMoves s @ [index] \<and> length (playerMoves s1) \<le> 3
             else playerMoves s1 = playerMoves s \<and> fadingCell s1 = Some (hd (playerMoves s))
                  \<and> playerMoves s2 = tl (playerMoves s) @ [index]
                  \<and> length (playerMoves s2) = 3"
  proof (cases "length (playerMoves s) < 3")
    case True
    then show ?thesis
      using player_place_click [OF assms(1,2,3,4,5) True] by (simp add: Let_def)
  next
    case False
    then have full: "3 \<le> length (playerMoves s)" by simp
    with assms(6) have three: "length (playerMoves s) = 3" by simp
    show ?thesis
      using False three
      by (simp add: Let_def player_decay_click [OF assms(1,2,3,4,5) full] fire_last
            fireTimer_def player_decay_fire)
  qed
  have machine: "let a1 = fireTimer e r' (TTTAIThink cb om) a;
               a2 = handleEvent e (Fire (length (timers a)) r'') a1
           in if length om < 3
              then opponentMoves a1 = om @ [pick r' (emptySpots cb)]
                   \<and> length (opponentMoves a1) \<le> 3
              else opponentMoves a1 = opponentMoves a \<and> fadingCell a1 = Some (hd om)
                   \<and> opponentMoves a2 = tl om @ [pick r' (emptySpots cb)]
                   \<and> length (opponentMoves a2) = 3"
  proof (cases "length om < 3")
    case True
    then show ?thesis
      using ai_place_think [OF assms(7) True] by (simp add: Let_def fireTimer_def)
  next
    case False
    then have full: "3 \<le> length om" by simp
    with assms(8) have three: "length om = 3" by simp
    show ?thesis
      using False three
      by (simp add: Let_def fireTimer_def ai_decay_think [OF assms(7) full] fire_last
            ai_decay_fire)
  qed
  have sync: "playerMoves (onState m d t)
            = cellsOf (playerSymbolOf (clientSide m) (role m)) (board d)"
     "opponentMoves (onState m d t)
            = cellsOf (opponentSymbolOf (clientSide m) (role m)) (board d)"
    by (simp_all add: onState_histories [OF assms(9)] jsSort_cellsOf [OF assms(10)])
  show ?thesis
    using player machine sync by (simp add: sorted_cellsOf)
qed

text \<open>
  A first mark and a fourth mark of the player, a fourth mark of the machine, and the
  second snapshot of the server.
\<close>

theorem C9_histories_after_update_witness:
  "playerMoves (handleTTTCellClick envLocal 0 (initialState envLocal)) = [0]
   \<and> playerMoves threeEach = [0, 1, 3]
   \<and> fadingCell (handleTTTCellClick envLocal 6 threeEach) = Some 0
   \<and> playerMoves (handleEvent envLocal (Fire 0 0) (handleTTTCellClick envLocal 6 threeEach))
        = [1, 3, 6]
   \<and> opponentMoves (handleEvent envLocal (Fire (length (timers afterDecay)) 0)
                       (fireTimer envLocal 1 (TTTAIThink boardAfterDecay [2, 4, 5]) afterDecay))
        = [4, 5, 7]
   \<and> playerMoves (onState envMulti snapshot25 (initialState envMulti)) = [2, 5]
   \<and> opponentMoves (onState envMulti snapshot25 (initialState envMulti)) = [0]"
proof -
  have h1: "opponentType envLocal = OppAI" by (simp add: envLocal_def)
  have i2: "started (initialState envLocal)" by code_simp
  have i3: "\<not> truthy (cellAt (tttBoard (initialState envLocal)) 0)" by code_simp
  have i4: "tttCurrentPlayer (initialState envLocal)
      = playerSymbolOf (side (initialState envLocal)) (role envLocal)" by code_simp
  have i5: "fadingCell (initialState envLocal) = None" by code_simp
  have i6: "length (playerMoves (initialState envLocal)) \<le> 3" by code_simp
  have h2: "started threeEach" by code_simp
  have h3: "\<not> truthy (cellAt (tttBoard threeEach) 6)" by code_simp
  have h4: "tttCurrentPlayer threeEach = playerSymbolOf (side threeEach) (role envLocal)"
    by code_simp
  have h5: "fadingCell threeEach = None" by code_simp
  have h6: "length (playerMoves threeEach) \<le> 3" by code_simp
  have h7: "emptySpots boardAfterDecay \<noteq> []" by code_simp
  have h8: "length [2, 4, 5 :: nat] \<le> 3" by simp
  have h9: "gameName envMulti = ''Tic-Tac-Toe''" by (simp add: envMulti_def)
  have h10: "length (board snapshot25) \<le> 10" by (simp add: snapshot25_def)
  note first = C9_histories_after_update
     [OF h1 i2 i3 i4 i5 i6 h7 h8 h9 h10,
      where r = 0 and r' = 1 and a = afterDecay and r'' = 0 and t = "initialState envMulti",
      unfolded Let_def]
  note fourth = C9_histories_after_update
     [OF h1 h2 h3 h4 h5 h6 h7 h8 h9 h10,
      where r = 0 and r' = 1 and a = afterDecay and r'' = 0 and t = "initialState envMulti",
      unfolded Let_def]
  have c0: "length (playerMoves (initialState envLocal)) < 3"
    "playerMoves (initialState envLocal) @ [0] = [0]" by code_simp+
  have c1: "\<not> length (playerMoves threeEach) < 3" "playerMoves threeEach = [0, 1, 3]"
    "timers threeEach = []" by code_simp+
  have c2: "\<not> length [2, 4, 5 :: nat] < 3" by simp
  have c3: "pick 1 (emptySpots boardAfterDecay) = 7" by code_simp
  have c4: "cellsOf (playerSymbolOf (clientSide envMulti) (role envMulti)) (board snapshot25)
      = [2, 5]"
    "cellsOf (opponentSymbolOf (clientSide envMulti) (role envMulti)) (board snapshot25) = [0]"
    by code_simp+
  show ?thesis
    using first fourth c0 c1 c2 unfolding c3 c4 by simp
qed

end
